theory Spec2Isabelle
  imports Main "HOL-Library.AList"
begin

section \<open>Python values\<close>

text \<open>
  The backend of \<^verbatim>\<open>src/App.py\<close> keeps every project descriptor as an untyped Python
  dictionary that it reads from and writes to a JSON file. The values that can travel
  through \<^verbatim>\<open>json.load\<close> and \<^verbatim>\<open>json.dump\<close> are modelled by the datatype below; a
  dictionary is an association list in insertion order, and Python's \<^verbatim>\<open>None\<close> is
  \<open>JNull\<close>. The same values are what the JSON body of a request parses to. Numbers
  are the integers: no handler computes with a number, a number is false exactly when it
  is zero, and it is refused wherever a string is needed.
\<close>

datatype json =
    JNull
  | JBool bool
  | JInt int
  | JStr string
  | JArr "json list"
  | JObj "(string \<times> json) list"

text \<open>Truth value of a Python object, as \<^verbatim>\<open>if metadata:\<close> tests it.\<close>

fun truthy :: "json \<Rightarrow> bool" where
  "truthy JNull = False"
| "truthy (JBool b) = b"
| "truthy (JInt i) = (i \<noteq> 0)"
| "truthy (JStr s) = (s \<noteq> [])"
| "truthy (JArr xs) = (xs \<noteq> [])"
| "truthy (JObj kvs) = (kvs \<noteq> [])"

text \<open>
  Every handler wraps its body in \<^verbatim>\<open>try: ... except Exception as e:\<close>; the exceptions
  that the modelled operations can raise are values of \<open>exn\<close>. All file system faults
  (\<^verbatim>\<open>FileNotFoundError\<close>, \<^verbatim>\<open>IsADirectoryError\<close>, \<^verbatim>\<open>NotADirectoryError\<close>,
  \<^verbatim>\<open>FileExistsError\<close>) are subclasses of \<^verbatim>\<open>OSError\<close> and are not told apart;
  \<open>HTTPException\<close> is what the web framework raises when it cannot give the JSON body of
  a request, and it is an \<^verbatim>\<open>Exception\<close> like the others.
\<close>

datatype exn = KeyError | TypeError | AttributeError | JSONDecodeError | OSError | HTTPException

text \<open>\<^verbatim>\<open>obj[key]\<close> for a string key.\<close>

fun getitem :: "json \<Rightarrow> string \<Rightarrow> exn + json" where
  "getitem (JObj kvs) k = (case map_of kvs k of None \<Rightarrow> Inl KeyError | Some v \<Rightarrow> Inr v)"
| "getitem _ k = Inl TypeError"

text \<open>\<^verbatim>\<open>obj.get(key, default)\<close>; only a dictionary has the method.\<close>

fun dict_get :: "json \<Rightarrow> string \<Rightarrow> json \<Rightarrow> exn + json" where
  "dict_get (JObj kvs) k d = Inr (case map_of kvs k of None \<Rightarrow> d | Some v \<Rightarrow> v)"
| "dict_get _ k d = Inl AttributeError"

text \<open>\<^verbatim>\<open>obj[key] = value\<close> for a string key; the model returns the mutated object.\<close>

fun setitem :: "json \<Rightarrow> string \<Rightarrow> json \<Rightarrow> exn + json" where
  "setitem (JObj kvs) k v = Inr (JObj (AList.update k v kvs))"
| "setitem _ k v = Inl TypeError"

text \<open>\<^verbatim>\<open>obj.append(value)\<close>; only a list has the method.\<close>

fun append_item :: "json \<Rightarrow> json \<Rightarrow> exn + json" where
  "append_item (JArr xs) v = Inr (JArr (xs @ [v]))"
| "append_item _ v = Inl AttributeError"

text \<open>
  The items a \<^verbatim>\<open>for\<close> loop or a comprehension visits: the elements of a list, the
  keys of a dictionary, the characters of a string; anything else is not iterable.
\<close>

fun iter_items :: "json \<Rightarrow> exn + json list" where
  "iter_items (JArr xs) = Inr xs"
| "iter_items (JObj kvs) = Inr (map (\<lambda>kv. JStr (fst kv)) kvs)"
| "iter_items (JStr s) = Inr (map (\<lambda>c. JStr [c]) s)"
| "iter_items _ = Inl TypeError"

fun is_prefix_of :: "'a list \<Rightarrow> 'a list \<Rightarrow> bool" where
  "is_prefix_of [] ys = True"
| "is_prefix_of (x # xs) [] = False"
| "is_prefix_of (x # xs) (y # ys) = (x = y \<and> is_prefix_of xs ys)"

fun is_substring :: "'a list \<Rightarrow> 'a list \<Rightarrow> bool" where
  "is_substring xs [] = (xs = [])"
| "is_substring xs (y # ys) = (is_prefix_of xs (y # ys) \<or> is_substring xs ys)"

text \<open>
  \<^verbatim>\<open>name in obj\<close> for a string \<open>name\<close>: membership in a list, key membership in a
  dictionary, substring test in a string.
\<close>

fun contains_str :: "json \<Rightarrow> string \<Rightarrow> exn + bool" where
  "contains_str (JArr xs) s = Inr (JStr s \<in> set xs)"
| "contains_str (JObj kvs) s = Inr (s \<in> set (map fst kvs))"
| "contains_str (JStr t) s = Inr (is_substring s t)"
| "contains_str _ s = Inl TypeError"

text \<open>\<^verbatim>\<open>s.split(sep)\<close> for a one-character separator.\<close>

fun split_on :: "char \<Rightarrow> string \<Rightarrow> string list" where
  "split_on c [] = [[]]"
| "split_on c (x # xs) =
     (if x = c then [] # split_on c xs
      else (case split_on c xs of [] \<Rightarrow> [[x]] | y # ys \<Rightarrow> (x # y) # ys))"

text \<open>\<^verbatim>\<open>str(n)\<close> for an integer: its decimal digits, with a minus sign when negative.\<close>

definition digit_char :: "nat \<Rightarrow> char" where
  "digit_char d = ''0123456789'' ! d"

fun str_nat :: "nat \<Rightarrow> string" where
  "str_nat n = (if n < 10 then [digit_char n] else str_nat (n div 10) @ [digit_char (n mod 10)])"

declare str_nat.simps [simp del]

definition str_int :: "int \<Rightarrow> string" where
  "str_int i = (if i < 0 then CHR ''-'' # str_nat (nat (- i)) else str_nat (nat i))"

section \<open>The JSON library\<close>

text \<open>
  \<^verbatim>\<open>json.dump\<close> and \<^verbatim>\<open>json.load\<close> belong to the Python standard library, not to
  the repository, and so does the text that an f-string prints for an object. The
  handlers take them as a parameter: \<open>dumps\<close> is the text \<^verbatim>\<open>json.dump(v, f, indent=2)\<close>
  writes, \<open>loads\<close> is the value \<^verbatim>\<open>json.load\<close> parses (\<open>None\<close> when it raises
  \<^verbatim>\<open>JSONDecodeError\<close>), \<open>format_obj\<close> is \<^verbatim>\<open>str(v)\<close> of an object that is not a
  string.
\<close>

record json_lib =
  dumps :: "json \<Rightarrow> string"
  loads :: "string \<Rightarrow> json option"
  format_obj :: "json \<Rightarrow> string"

text \<open>What the library promises: a dumped value is read back unchanged.\<close>

definition round_trips :: "json_lib \<Rightarrow> bool" where
  "round_trips L = (\<forall>v. loads L (dumps L v) = Some v)"

definition py_str :: "json_lib \<Rightarrow> json \<Rightarrow> string" where
  "py_str L v = (case v of JStr s \<Rightarrow> s | _ \<Rightarrow> format_obj L v)"

section \<open>The file system\<close>

text \<open>
  A file system is a finite table from absolute locations (the list of directory names
  from the root) to nodes, together with the working directory of the server process.
  The root is always a directory. Symbolic links, permissions and concurrent writers are
  not modelled.
\<close>

type_synonym location = "string list"

datatype node = File string | Dir

record world =
  nodes :: "(location \<times> node) list"
  cwd :: location

definition node_at :: "world \<Rightarrow> location \<Rightarrow> node option" where
  "node_at w k = (if k = [] then Some Dir else map_of (nodes w) k)"

definition is_dir :: "world \<Rightarrow> location \<Rightarrow> bool" where
  "is_dir w k = (node_at w k = Some Dir)"

definition put_node :: "world \<Rightarrow> location \<Rightarrow> node \<Rightarrow> world" where
  "put_node w k n = w\<lparr>nodes := AList.update k n (nodes w)\<rparr>"

definition drop_node :: "world \<Rightarrow> location \<Rightarrow> world" where
  "drop_node w k = w\<lparr>nodes := AList.delete k (nodes w)\<rparr>"

text \<open>
  Path resolution walks the components from left to right: every component is looked up
  in a directory that must exist, \<^verbatim>\<open>.\<close> and the empty component stay, \<^verbatim>\<open>..\<close> goes to
  the parent. The last component need not exist; \<open>None\<close> means that a directory on the
  way is missing or is a file.
\<close>

fun walk :: "world \<Rightarrow> location \<Rightarrow> string list \<Rightarrow> location option" where
  "walk w cur [] = Some cur"
| "walk w cur (c # cs) =
     (if \<not> is_dir w cur then None
      else if c = [] \<or> c = ''.'' then walk w cur cs
      else if c = ''..'' then walk w (butlast cur) cs
      else walk w (cur @ [c]) cs)"

definition start_of :: "world \<Rightarrow> string \<Rightarrow> location" where
  "start_of w p = (if p \<noteq> [] \<and> hd p = CHR ''/'' then [] else cwd w)"

definition resolve :: "world \<Rightarrow> string \<Rightarrow> location option" where
  "resolve w p = (if p = [] then None else walk w (start_of w p) (split_on CHR ''/'' p))"

text \<open>\<^verbatim>\<open>os.path.exists\<close> and \<^verbatim>\<open>os.path.isdir\<close>.\<close>

definition path_exists :: "world \<Rightarrow> string \<Rightarrow> bool" where
  "path_exists w p = (case resolve w p of None \<Rightarrow> False | Some k \<Rightarrow> node_at w k \<noteq> None)"

definition path_isdir :: "world \<Rightarrow> string \<Rightarrow> bool" where
  "path_isdir w p = (case resolve w p of None \<Rightarrow> False | Some k \<Rightarrow> is_dir w k)"

text \<open>\<^verbatim>\<open>with open(p, 'r') as f: f.read()\<close>.\<close>

definition read_file :: "world \<Rightarrow> string \<Rightarrow> exn + string" where
  "read_file w p =
     (case resolve w p of
        None \<Rightarrow> Inl OSError
      | Some k \<Rightarrow> (case node_at w k of Some (File s) \<Rightarrow> Inr s | _ \<Rightarrow> Inl OSError))"

text \<open>
  \<^verbatim>\<open>with open(p, 'w') as f: f.write(s)\<close>: creates or truncates a regular file whose
  directory exists; a failure leaves the file system as it was.
\<close>

definition write_file :: "world \<Rightarrow> string \<Rightarrow> string \<Rightarrow> exn + world" where
  "write_file w p s =
     (case resolve w p of
        None \<Rightarrow> Inl OSError
      | Some k \<Rightarrow> (case node_at w k of Some Dir \<Rightarrow> Inl OSError | _ \<Rightarrow> Inr (put_node w k (File s))))"

text \<open>
  The same statement when the value to write comes from a request: \<^verbatim>\<open>open\<close> creates
  or truncates the file before \<^verbatim>\<open>f.write\<close> looks at its argument, and \<^verbatim>\<open>f.write\<close>
  raises \<^verbatim>\<open>TypeError\<close> for an argument that is not a string; the file is then left
  empty.
\<close>

definition write_value :: "world \<Rightarrow> string \<Rightarrow> json \<Rightarrow> world \<times> (exn + unit)" where
  "write_value w p v =
     (case v of
        JStr s \<Rightarrow> (case write_file w p s of Inl e \<Rightarrow> (w, Inl e) | Inr w' \<Rightarrow> (w', Inr ()))
      | _ \<Rightarrow> (case write_file w p [] of Inl e \<Rightarrow> (w, Inl e) | Inr w' \<Rightarrow> (w', Inl TypeError)))"

text \<open>\<^verbatim>\<open>os.remove(p)\<close>: removes a regular file.\<close>

definition remove_file :: "world \<Rightarrow> string \<Rightarrow> exn + world" where
  "remove_file w p =
     (case resolve w p of
        None \<Rightarrow> Inl OSError
      | Some k \<Rightarrow> (case node_at w k of Some (File s) \<Rightarrow> Inr (drop_node w k) | _ \<Rightarrow> Inl OSError))"

text \<open>
  \<^verbatim>\<open>os.makedirs(p, exist_ok=True)\<close>: creates the missing directories of the path from
  left to right and fails at a component that is a regular file. The directories made
  before a failure stay, so the file system is returned in both cases.
\<close>

fun mkdirs :: "world \<Rightarrow> location \<Rightarrow> string list \<Rightarrow> world \<times> (exn + location)" where
  "mkdirs w cur [] = (w, Inr cur)"
| "mkdirs w cur (c # cs) =
     (if \<not> is_dir w cur then (w, Inl OSError)
      else if c = [] \<or> c = ''.'' then mkdirs w cur cs
      else if c = ''..'' then mkdirs w (butlast cur) cs
      else (case node_at w (cur @ [c]) of
              Some (File s) \<Rightarrow> (w, Inl OSError)
            | Some Dir \<Rightarrow> mkdirs w (cur @ [c]) cs
            | None \<Rightarrow> mkdirs (put_node w (cur @ [c]) Dir) (cur @ [c]) cs))"

definition makedirs :: "world \<Rightarrow> string \<Rightarrow> world \<times> (exn + location)" where
  "makedirs w p =
     (if p = [] then (w, Inl OSError) else mkdirs w (start_of w p) (split_on CHR ''/'' p))"

text \<open>\<^verbatim>\<open>os.listdir(p)\<close>: the names in a directory, in the order of the table.\<close>

definition listdir :: "world \<Rightarrow> string \<Rightarrow> exn + string list" where
  "listdir w p =
     (case resolve w p of
        None \<Rightarrow> Inl OSError
      | Some k \<Rightarrow>
          if is_dir w k
          then Inr (map last (filter (\<lambda>l. l \<noteq> [] \<and> butlast l = k) (remdups (map fst (nodes w)))))
          else Inl OSError)"

text \<open>\<^verbatim>\<open>os.path.join(a, b)\<close> and \<^verbatim>\<open>os.path.dirname(p)\<close> of \<^verbatim>\<open>posixpath\<close>.\<close>

definition join :: "string \<Rightarrow> string \<Rightarrow> string" where
  "join a b =
     (if b \<noteq> [] \<and> hd b = CHR ''/'' then b
      else if a = [] \<or> last a = CHR ''/'' then a @ b
      else a @ CHR ''/'' # b)"

text \<open>
  \<^verbatim>\<open>os.path.join\<close> passes each argument through \<^verbatim>\<open>os.fspath\<close>, which raises
  \<^verbatim>\<open>TypeError\<close> for a value of a request that is not a string.
\<close>

definition fspath :: "json \<Rightarrow> exn + string" where
  "fspath v = (case v of JStr s \<Rightarrow> Inr s | _ \<Rightarrow> Inl TypeError)"

definition dirname :: "string \<Rightarrow> string" where
  "dirname p =
     (let head = rev (dropWhile (\<lambda>c. c \<noteq> CHR ''/'') (rev p))
      in if head \<noteq> [] \<and> (\<exists>c \<in> set head. c \<noteq> CHR ''/'')
         then rev (dropWhile (\<lambda>c. c = CHR ''/'') (rev head))
         else head)"

section \<open>Requests and responses\<close>

text \<open>
  A request is known by what \<^verbatim>\<open>request.json\<close> makes of its body: \<open>Some v\<close> when the
  body is JSON text, \<open>v\<close> being the value it parses to (an object as documented, but just
  as well a list, a string, a number or \<^verbatim>\<open>null\<close>), and \<open>None\<close> when the request has
  no JSON body, in which case \<^verbatim>\<open>request.json\<close> raises. No handler checks the value
  before it calls \<^verbatim>\<open>data.get\<close> on it, and no field is checked for its type.
  A response is the status code with the body of the envelope: \<open>Success fields\<close> is
  \<^verbatim>\<open>{'success': True, **fields}\<close>, \<open>Failure msg\<close> is
  \<^verbatim>\<open>{'success': False, 'error': msg}\<close> with a fixed message, and \<open>Fault e\<close> is the body
  \<^verbatim>\<open>{'success': False, 'error': str(e)}\<close> of the \<^verbatim>\<open>except Exception\<close> branch.
\<close>

type_synonym request = "json option"

definition request_json :: "request \<Rightarrow> exn + json" where
  "request_json req = (case req of None \<Rightarrow> Inl HTTPException | Some v \<Rightarrow> Inr v)"

datatype body = Success "(string \<times> json) list" | Failure string | Fault exn

type_synonym response = "nat \<times> body"

section \<open>Helper functions of the backend\<close>

definition PROJECTS_DIR :: string where
  "PROJECTS_DIR = ''projects''"

definition get_project_path :: "string \<Rightarrow> string" where
  "get_project_path project_id = join PROJECTS_DIR project_id"

definition metadata_path :: "string \<Rightarrow> string" where
  "metadata_path project_id = join (get_project_path project_id) ''project.json''"

definition save_project_metadata :: "json_lib \<Rightarrow> string \<Rightarrow> json \<Rightarrow> world \<Rightarrow> exn + world" where
  "save_project_metadata L project_id metadata w =
     write_file w (metadata_path project_id) (dumps L metadata)"

definition load_project_metadata :: "json_lib \<Rightarrow> string \<Rightarrow> world \<Rightarrow> exn + json" where
  "load_project_metadata L project_id w =
     (if path_exists w (metadata_path project_id)
      then (case read_file w (metadata_path project_id) of
              Inl e \<Rightarrow> Inl e
            | Inr text \<Rightarrow> (case loads L text of None \<Rightarrow> Inl JSONDecodeError | Some v \<Rightarrow> Inr v))
      else Inr JNull)"

section \<open>Project endpoints\<close>

text \<open>The loop of \<^verbatim>\<open>get_projects\<close> over the names of the projects directory.\<close>

fun collect_projects :: "json_lib \<Rightarrow> world \<Rightarrow> string list \<Rightarrow> json list \<Rightarrow> exn + json list" where
  "collect_projects L w [] projects = Inr projects"
| "collect_projects L w (project_id # rest) projects =
     (if path_isdir w (get_project_path project_id)
      then (case load_project_metadata L project_id w of
              Inl e \<Rightarrow> Inl e
            | Inr metadata \<Rightarrow>
                if truthy metadata then collect_projects L w rest (projects @ [metadata])
                else collect_projects L w rest projects)
      else collect_projects L w rest projects)"

definition get_projects :: "json_lib \<Rightarrow> world \<Rightarrow> world \<times> response" where
  "get_projects L w =
     (case (if path_exists w PROJECTS_DIR
            then (case listdir w PROJECTS_DIR of
                    Inl e \<Rightarrow> Inl e
                  | Inr names \<Rightarrow> collect_projects L w names [])
            else Inr [])
      of Inl e \<Rightarrow> (w, 500, Fault e)
       | Inr projects \<Rightarrow> (w, 200, Success [(''projects'', JArr projects)]))"

definition file_entry :: "string \<Rightarrow> string \<Rightarrow> string \<Rightarrow> string \<Rightarrow> json" where
  "file_entry name path content type =
     JObj [(''name'', JStr name), (''path'', JStr path), (''content'', JStr content),
           (''type'', JStr type)]"

fun makedirs_each :: "world \<Rightarrow> string \<Rightarrow> string list \<Rightarrow> world \<times> (exn + unit)" where
  "makedirs_each w project_path [] = (w, Inr ())"
| "makedirs_each w project_path (d # ds) =
     (case makedirs w (join project_path d) of
        (w1, Inl e) \<Rightarrow> (w1, Inl e)
      | (w1, Inr _) \<Rightarrow> makedirs_each w1 project_path ds)"

text \<open>
  The template branch of \<^verbatim>\<open>create_project\<close>: it returns the folder list and the file
  list of the new project. The template is compared with the two names; any other value
  takes the last branch.
\<close>

definition create_structure ::
  "world \<Rightarrow> string \<Rightarrow> json \<Rightarrow> world \<times> (exn + string list \<times> json list)" where
  "create_structure w project_path template =
     (if template = JStr ''basic'' then
        (case makedirs w (join project_path ''src'') of
           (w1, Inl e) \<Rightarrow> (w1, Inl e)
         | (w1, Inr _) \<Rightarrow>
             (case write_file w1 (join (join project_path ''src'') ''Main.java'') [] of
                Inl e \<Rightarrow> (w1, Inl e)
              | Inr w2 \<Rightarrow>
                  (w2, Inr ([''src''], [file_entry ''Main.java'' ''src/Main.java'' [] ''java'']))))
      else if template = JStr ''maven'' then
        (case makedirs_each w project_path [''src/main/java'', ''src/test/java''] of
           (w1, Inl e) \<Rightarrow> (w1, Inl e)
         | (w1, Inr _) \<Rightarrow>
             (case write_file w1 (join project_path ''pom.xml'') [] of
                Inl e \<Rightarrow> (w1, Inl e)
              | Inr w2 \<Rightarrow>
                  (w2, Inr ([''src'', ''src/main/java'', ''src/test/java''],
                            [file_entry ''pom.xml'' ''pom.xml'' [] ''xml'']))))
      else
        (case makedirs w (join project_path ''src'') of
           (w1, Inl e) \<Rightarrow> (w1, Inl e)
         | (w1, Inr _) \<Rightarrow> (w1, Inr ([''src''], []))))"

text \<open>
  \<^verbatim>\<open>create_project\<close> reads the clock twice: \<open>now_ms\<close> is
  \<^verbatim>\<open>int(datetime.now().timestamp() * 1000)\<close> and \<open>created_at\<close> is
  \<^verbatim>\<open>datetime.now().isoformat()\<close>. The name and the template go into the descriptor as
  the request gave them, whatever their type.
\<close>

definition create_project ::
  "json_lib \<Rightarrow> int \<Rightarrow> string \<Rightarrow> request \<Rightarrow> world \<Rightarrow> world \<times> response" where
  "create_project L now_ms created_at req w =
     (case request_json req of
        Inl e \<Rightarrow> (w, 500, Fault e)
      | Inr data \<Rightarrow>
          (case dict_get data ''name'' JNull of
             Inl e \<Rightarrow> (w, 500, Fault e)
           | Inr project_name \<Rightarrow>
               (case dict_get data ''template'' (JStr ''empty'') of
                  Inl e \<Rightarrow> (w, 500, Fault e)
                | Inr template \<Rightarrow>
                    if \<not> truthy project_name then (w, 400, Failure ''Project name is required'')
                    else
                      let project_id = str_int now_ms;
                          project_path = get_project_path project_id
                      in case makedirs w project_path of
                           (w1, Inl e) \<Rightarrow> (w1, 500, Fault e)
                         | (w1, Inr _) \<Rightarrow>
                             (case create_structure w1 project_path template of
                                (w2, Inl e) \<Rightarrow> (w2, 500, Fault e)
                              | (w2, Inr (folders, files)) \<Rightarrow>
                                  let metadata =
                                        JObj [(''id'', JStr project_id), (''name'', project_name),
                                              (''template'', template), (''files'', JArr files),
                                              (''folders'', JArr (map JStr folders)),
                                              (''createdAt'', JStr created_at)]
                                  in case save_project_metadata L project_id metadata w2 of
                                       Inl e \<Rightarrow> (w2, 500, Fault e)
                                     | Inr w3 \<Rightarrow>
                                         (w3, 201, Success [(''project'', metadata)])))))"

definition get_project :: "json_lib \<Rightarrow> string \<Rightarrow> world \<Rightarrow> world \<times> response" where
  "get_project L project_id w =
     (case load_project_metadata L project_id w of
        Inl e \<Rightarrow> (w, 500, Fault e)
      | Inr metadata \<Rightarrow>
          if \<not> truthy metadata then (w, 404, Failure ''Project not found'')
          else (w, 200, Success [(''project'', metadata)]))"

section \<open>File and folder endpoints\<close>

text \<open>
  The value of the \<^verbatim>\<open>type\<close> field that \<^verbatim>\<open>create_file\<close> computes from the name,
  \<^verbatim>\<open>file_name.split('.')[-1] if '.' in file_name else 'txt'\<close>: the membership test
  comes first, and only a string has the method \<^verbatim>\<open>split\<close>.
\<close>

definition file_type :: "json \<Rightarrow> exn + string" where
  "file_type file_name =
     (case contains_str file_name ''.'' of
        Inl e \<Rightarrow> Inl e
      | Inr True \<Rightarrow>
          (case file_name of
             JStr s \<Rightarrow> Inr (last (split_on CHR ''.'' s))
           | _ \<Rightarrow> Inl AttributeError)
      | Inr False \<Rightarrow> Inr ''txt'')"

definition create_file :: "json_lib \<Rightarrow> string \<Rightarrow> request \<Rightarrow> world \<Rightarrow> world \<times> response" where
  "create_file L project_id req w =
     (case request_json req of
        Inl e \<Rightarrow> (w, 500, Fault e)
      | Inr data \<Rightarrow>
     (case dict_get data ''name'' JNull of
        Inl e \<Rightarrow> (w, 500, Fault e)
      | Inr file_name \<Rightarrow>
     (case dict_get data ''path'' JNull of
        Inl e \<Rightarrow> (w, 500, Fault e)
      | Inr file_path \<Rightarrow>
     (case dict_get data ''content'' (JStr []) of
        Inl e \<Rightarrow> (w, 500, Fault e)
      | Inr file_content \<Rightarrow>
          if \<not> truthy file_name \<or> \<not> truthy file_path
          then (w, 400, Failure ''File name and path are required'')
          else
            (case load_project_metadata L project_id w of
               Inl e \<Rightarrow> (w, 500, Fault e)
             | Inr metadata \<Rightarrow>
                 if \<not> truthy metadata then (w, 404, Failure ''Project not found'')
                 else
                   let project_path = get_project_path project_id
                   in case fspath file_path of
                        Inl e \<Rightarrow> (w, 500, Fault e)
                      | Inr path \<Rightarrow>
                   let full_file_path = join project_path path
                   in case makedirs w (dirname full_file_path) of
                        (w1, Inl e) \<Rightarrow> (w1, 500, Fault e)
                      | (w1, Inr _) \<Rightarrow>
                   (case write_value w1 full_file_path file_content of
                      (w2, Inl e) \<Rightarrow> (w2, 500, Fault e)
                    | (w2, Inr _) \<Rightarrow>
                   (case file_type file_name of
                      Inl e \<Rightarrow> (w2, 500, Fault e)
                    | Inr type \<Rightarrow>
                   let file_info =
                         JObj [(''name'', file_name), (''path'', file_path),
                               (''content'', file_content), (''type'', JStr type)]
                   in case getitem metadata ''files'' of
                        Inl e \<Rightarrow> (w2, 500, Fault e)
                      | Inr files \<Rightarrow>
                   (case append_item files file_info of
                      Inl e \<Rightarrow> (w2, 500, Fault e)
                    | Inr files' \<Rightarrow>
                   (case setitem metadata ''files'' files' of
                      Inl e \<Rightarrow> (w2, 500, Fault e)
                    | Inr metadata' \<Rightarrow>
                   (case save_project_metadata L project_id metadata' w2 of
                      Inl e \<Rightarrow> (w2, 500, Fault e)
                    | Inr w3 \<Rightarrow> (w3, 201, Success [(''file'', file_info)])))))))))))"

definition get_file :: "string \<Rightarrow> string \<Rightarrow> world \<Rightarrow> world \<times> response" where
  "get_file project_id file_path w =
     (let project_path = get_project_path project_id;
          full_file_path = join project_path file_path
      in if \<not> path_exists w full_file_path then (w, 404, Failure ''File not found'')
         else (case read_file w full_file_path of
                 Inl e \<Rightarrow> (w, 500, Fault e)
               | Inr content \<Rightarrow> (w, 200, Success [(''content'', JStr content)])))"

text \<open>
  The loop of \<^verbatim>\<open>update_file\<close> over the file entries: the first entry whose path is
  the given one gets the new content, and the loop stops there.
\<close>

fun update_first :: "json list \<Rightarrow> string \<Rightarrow> json \<Rightarrow> exn + json list" where
  "update_first [] file_path content = Inr []"
| "update_first (file_info # rest) file_path content =
     (case getitem file_info ''path'' of
        Inl e \<Rightarrow> Inl e
      | Inr p \<Rightarrow>
          if p = JStr file_path
          then (case setitem file_info ''content'' content of
                  Inl e \<Rightarrow> Inl e
                | Inr file_info' \<Rightarrow> Inr (file_info' # rest))
          else (case update_first rest file_path content of
                  Inl e \<Rightarrow> Inl e
                | Inr rest' \<Rightarrow> Inr (file_info # rest')))"

text \<open>
  The loop applied to \<^verbatim>\<open>metadata['files']\<close>: the entries of a list are mutated in
  place; the items of another iterable are strings, on which the lookup of
  \<^verbatim>\<open>'path'\<close> raises.
\<close>

definition update_entries :: "json \<Rightarrow> string \<Rightarrow> json \<Rightarrow> exn + json" where
  "update_entries files file_path content =
     (case files of
        JArr xs \<Rightarrow>
          (case update_first xs file_path content of Inl e \<Rightarrow> Inl e | Inr xs' \<Rightarrow> Inr (JArr xs'))
      | _ \<Rightarrow>
          (case iter_items files of
             Inl e \<Rightarrow> Inl e
           | Inr items \<Rightarrow>
               (case update_first items file_path content of
                  Inl e \<Rightarrow> Inl e
                | Inr _ \<Rightarrow> Inr files)))"

definition update_file ::
  "json_lib \<Rightarrow> string \<Rightarrow> string \<Rightarrow> request \<Rightarrow> world \<Rightarrow> world \<times> response" where
  "update_file L project_id file_path req w =
     (case request_json req of
        Inl e \<Rightarrow> (w, 500, Fault e)
      | Inr data \<Rightarrow>
     (case dict_get data ''content'' (JStr []) of
        Inl e \<Rightarrow> (w, 500, Fault e)
      | Inr content \<Rightarrow>
          let project_path = get_project_path project_id;
              full_file_path = join project_path file_path
          in if \<not> path_exists w full_file_path then (w, 404, Failure ''File not found'')
             else
               (case write_value w full_file_path content of
                  (w1, Inl e) \<Rightarrow> (w1, 500, Fault e)
                | (w1, Inr _) \<Rightarrow>
               (case load_project_metadata L project_id w1 of
                  Inl e \<Rightarrow> (w1, 500, Fault e)
                | Inr metadata \<Rightarrow>
                    if truthy metadata then
                      (case getitem metadata ''files'' of
                         Inl e \<Rightarrow> (w1, 500, Fault e)
                       | Inr files \<Rightarrow>
                      (case update_entries files file_path content of
                         Inl e \<Rightarrow> (w1, 500, Fault e)
                       | Inr files' \<Rightarrow>
                      (case setitem metadata ''files'' files' of
                         Inl e \<Rightarrow> (w1, 500, Fault e)
                       | Inr metadata' \<Rightarrow>
                      (case save_project_metadata L project_id metadata' w1 of
                         Inl e \<Rightarrow> (w1, 500, Fault e)
                       | Inr w2 \<Rightarrow>
                           (w2, 200,
                            Success [(''message'', JStr ''File updated successfully'')])))))
                    else (w1, 200, Success [(''message'', JStr ''File updated successfully'')])))))"

text \<open>
  The comprehension \<^verbatim>\<open>[f for f in metadata['files'] if f['path'] != file_path]\<close> of
  \<^verbatim>\<open>delete_file\<close>: it looks the path of every item up.
\<close>

fun keep_others :: "json list \<Rightarrow> string \<Rightarrow> exn + json list" where
  "keep_others [] file_path = Inr []"
| "keep_others (f # rest) file_path =
     (case getitem f ''path'' of
        Inl e \<Rightarrow> Inl e
      | Inr p \<Rightarrow>
          (case keep_others rest file_path of
             Inl e \<Rightarrow> Inl e
           | Inr rest' \<Rightarrow> Inr (if p \<noteq> JStr file_path then f # rest' else rest')))"

definition delete_file :: "json_lib \<Rightarrow> string \<Rightarrow> string \<Rightarrow> world \<Rightarrow> world \<times> response" where
  "delete_file L project_id file_path w =
     (let project_path = get_project_path project_id;
          full_file_path = join project_path file_path
      in if \<not> path_exists w full_file_path then (w, 404, Failure ''File not found'')
         else
           (case remove_file w full_file_path of
              Inl e \<Rightarrow> (w, 500, Fault e)
            | Inr w1 \<Rightarrow>
                (case load_project_metadata L project_id w1 of
                   Inl e \<Rightarrow> (w1, 500, Fault e)
                 | Inr metadata \<Rightarrow>
                     if truthy metadata then
                       (case getitem metadata ''files'' of
                          Inl e \<Rightarrow> (w1, 500, Fault e)
                        | Inr files \<Rightarrow>
                            (case iter_items files of
                               Inl e \<Rightarrow> (w1, 500, Fault e)
                             | Inr items \<Rightarrow>
                                 (case keep_others items file_path of
                                    Inl e \<Rightarrow> (w1, 500, Fault e)
                                  | Inr kept \<Rightarrow>
                                      (case setitem metadata ''files'' (JArr kept) of
                                         Inl e \<Rightarrow> (w1, 500, Fault e)
                                       | Inr metadata' \<Rightarrow>
                                           (case save_project_metadata L project_id metadata' w1 of
                                              Inl e \<Rightarrow> (w1, 500, Fault e)
                                            | Inr w2 \<Rightarrow>
                                                (w2, 200,
                                                 Success [(''message'',
                                                           JStr ''File deleted successfully'')]))))))
                     else (w1, 200, Success [(''message'', JStr ''File deleted successfully'')]))))"

definition create_folder :: "json_lib \<Rightarrow> string \<Rightarrow> request \<Rightarrow> world \<Rightarrow> world \<times> response" where
  "create_folder L project_id req w =
     (case request_json req of
        Inl e \<Rightarrow> (w, 500, Fault e)
      | Inr data \<Rightarrow>
     (case dict_get data ''name'' JNull of
        Inl e \<Rightarrow> (w, 500, Fault e)
      | Inr folder_name \<Rightarrow>
          if \<not> truthy folder_name then (w, 400, Failure ''Folder name is required'')
          else
            (case load_project_metadata L project_id w of
               Inl e \<Rightarrow> (w, 500, Fault e)
             | Inr metadata \<Rightarrow>
                 if \<not> truthy metadata then (w, 404, Failure ''Project not found'')
                 else
                   let project_path = get_project_path project_id
                   in case fspath folder_name of
                        Inl e \<Rightarrow> (w, 500, Fault e)
                      | Inr name \<Rightarrow>
                   let folder_path = join project_path name
                   in case makedirs w folder_path of
                        (w1, Inl e) \<Rightarrow> (w1, 500, Fault e)
                      | (w1, Inr _) \<Rightarrow>
                   (case getitem metadata ''folders'' of
                      Inl e \<Rightarrow> (w1, 500, Fault e)
                    | Inr folders \<Rightarrow>
                   (case contains_str folders name of
                      Inl e \<Rightarrow> (w1, 500, Fault e)
                    | Inr True \<Rightarrow> (w1, 201, Success [(''folder'', folder_name)])
                    | Inr False \<Rightarrow>
                   (case append_item folders folder_name of
                      Inl e \<Rightarrow> (w1, 500, Fault e)
                    | Inr folders' \<Rightarrow>
                   (case setitem metadata ''folders'' folders' of
                      Inl e \<Rightarrow> (w1, 500, Fault e)
                    | Inr metadata' \<Rightarrow>
                   (case save_project_metadata L project_id metadata' w1 of
                      Inl e \<Rightarrow> (w1, 500, Fault e)
                    | Inr w2 \<Rightarrow> (w2, 201, Success [(''folder'', folder_name)])))))))))"

definition run_project :: "json_lib \<Rightarrow> string \<Rightarrow> world \<Rightarrow> world \<times> response" where
  "run_project L project_id w =
     (case load_project_metadata L project_id w of
        Inl e \<Rightarrow> (w, 500, Fault e)
      | Inr metadata \<Rightarrow>
          if \<not> truthy metadata then (w, 404, Failure ''Project not found'')
          else
            (case getitem metadata ''name'' of
               Inl e \<Rightarrow> (w, 500, Fault e)
             | Inr name \<Rightarrow>
                 (w, 200,
                  Success [(''output'',
                            JStr (''Running project: '' @ py_str L name @ ''...'' @ [CHR 0x0A]
                                  @ ''Compilation started...'' @ [CHR 0x0A]))])))"

section \<open>A JSON library for examples\<close>

text \<open>
  A printer and a parser for compact JSON text. They are one instance of the library
  parameter, used wherever a property is exercised on concrete data; the properties of
  the endpoints themselves are stated for every library that round-trips.
\<close>

definition is_digit :: "char \<Rightarrow> bool" where
  "is_digit c = (c \<in> set ''0123456789'')"

definition digit_val :: "char \<Rightarrow> nat" where
  "digit_val c = length (takeWhile (\<lambda>d. d \<noteq> c) ''0123456789'')"

fun nat_of_digits :: "nat \<Rightarrow> string \<Rightarrow> nat" where
  "nat_of_digits acc [] = acc"
| "nat_of_digits acc (c # cs) = nat_of_digits (10 * acc + digit_val c) cs"

fun escape :: "string \<Rightarrow> string" where
  "escape [] = []"
| "escape (c # cs) =
     (if c = CHR ''\"'' \<or> c = CHR 0x5C then CHR 0x5C # c # escape cs else c # escape cs)"

definition quote :: "string \<Rightarrow> string" where
  "quote s = CHR ''\"'' # escape s @ [CHR ''\"'']"

fun unescape :: "string \<Rightarrow> (string \<times> string) option" where
  "unescape [] = None"
| "unescape (c # cs) =
     (if c = CHR ''\"'' then Some ([], cs)
      else if c = CHR 0x5C then
        (case cs of [] \<Rightarrow> None | d # ds \<Rightarrow> map_option (\<lambda>(s, r). (d # s, r)) (unescape ds))
      else map_option (\<lambda>(s, r). (c # s, r)) (unescape cs))"

fun commas :: "string list \<Rightarrow> string" where
  "commas [] = []"
| "commas [x] = x"
| "commas (x # y # ys) = x @ CHR '','' # commas (y # ys)"

fun json_dumps :: "json \<Rightarrow> string" where
  "json_dumps JNull = ''null''"
| "json_dumps (JBool b) = (if b then ''true'' else ''false'')"
| "json_dumps (JInt i) = str_int i"
| "json_dumps (JStr s) = quote s"
| "json_dumps (JArr xs) = CHR ''['' # commas (map json_dumps xs) @ '']''"
| "json_dumps (JObj kvs) =
     CHR ''{'' # commas (map (\<lambda>(k, v). quote k @ CHR '':'' # json_dumps v) kvs) @ ''}''"

fun parse_value :: "nat \<Rightarrow> string \<Rightarrow> (json \<times> string) option"
  and parse_elems :: "nat \<Rightarrow> string \<Rightarrow> (json list \<times> string) option"
  and parse_members :: "nat \<Rightarrow> string \<Rightarrow> ((string \<times> json) list \<times> string) option" where
  "parse_value 0 s = None"
| "parse_value (Suc n) [] = None"
| "parse_value (Suc n) (c # r) =
     (if c = CHR ''n'' then (if take 3 r = ''ull'' then Some (JNull, drop 3 r) else None)
      else if c = CHR ''t'' then (if take 3 r = ''rue'' then Some (JBool True, drop 3 r) else None)
      else if c = CHR ''f'' then (if take 4 r = ''alse'' then Some (JBool False, drop 4 r) else None)
      else if c = CHR ''\"'' then map_option (\<lambda>(s, r'). (JStr s, r')) (unescape r)
      else if c = CHR ''['' then
        (case r of
           [] \<Rightarrow> None
         | d # r' \<Rightarrow>
             if d = CHR '']'' then Some (JArr [], r')
             else map_option (\<lambda>(xs, r''). (JArr xs, r'')) (parse_elems n r))
      else if c = CHR ''{'' then
        (case r of
           [] \<Rightarrow> None
         | d # r' \<Rightarrow>
             if d = CHR ''}'' then Some (JObj [], r')
             else map_option (\<lambda>(kvs, r''). (JObj kvs, r'')) (parse_members n r))
      else if c = CHR ''-'' then
        (if takeWhile is_digit r = [] then None
         else Some (JInt (- int (nat_of_digits 0 (takeWhile is_digit r))), dropWhile is_digit r))
      else if is_digit c then
        Some (JInt (int (nat_of_digits 0 (takeWhile is_digit (c # r)))), dropWhile is_digit r)
      else None)"
| "parse_elems 0 s = None"
| "parse_elems (Suc n) s =
     (case parse_value n s of
        None \<Rightarrow> None
      | Some (x, r) \<Rightarrow>
          (case r of
             [] \<Rightarrow> None
           | c # r' \<Rightarrow>
               if c = CHR '']'' then Some ([x], r')
               else if c = CHR '','' then map_option (\<lambda>(xs, r''). (x # xs, r'')) (parse_elems n r')
               else None))"
| "parse_members 0 s = None"
| "parse_members (Suc n) [] = None"
| "parse_members (Suc n) (q # s) =
     (if q \<noteq> CHR ''\"'' then None
      else
        (case unescape s of
           None \<Rightarrow> None
         | Some (k, r1) \<Rightarrow>
             (case r1 of
                [] \<Rightarrow> None
              | c # r2 \<Rightarrow>
                  if c \<noteq> CHR '':'' then None
                  else
                    (case parse_value n r2 of
                       None \<Rightarrow> None
                     | Some (v, r3) \<Rightarrow>
                         (case r3 of
                            [] \<Rightarrow> None
                          | d # r4 \<Rightarrow>
                              if d = CHR ''}'' then Some ([(k, v)], r4)
                              else if d = CHR '','' then
                                map_option (\<lambda>(kvs, r5). ((k, v) # kvs, r5)) (parse_members n r4)
                              else None)))))"

definition json_loads :: "string \<Rightarrow> json option" where
  "json_loads s = (case parse_value (length s) s of Some (v, []) \<Rightarrow> Some v | _ \<Rightarrow> None)"

definition json_codec :: json_lib where
  "json_codec = \<lparr>dumps = json_dumps, loads = json_loads, format_obj = json_dumps\<rparr>"

text \<open>Notions used to state that the parser inverts the printer.\<close>

definition rest_ok :: "string \<Rightarrow> bool" where
  "rest_ok r = (takeWhile is_digit r = [])"

definition parses :: "json \<Rightarrow> bool" where
  "parses v = (\<forall>n r. length (json_dumps v) \<le> n \<longrightarrow> rest_ok r \<longrightarrow>
                 parse_value n (json_dumps v @ r) = Some (v, r))"

definition member_text :: "string \<times> json \<Rightarrow> string" where
  "member_text kv = quote (fst kv) @ CHR '':'' # json_dumps (snd kv)"

section \<open>Example data\<close>

text \<open>
  The concrete scenario of the specification: a server started in \<^verbatim>\<open>/app\<close> with an
  empty projects directory, the project \<^verbatim>\<open>Demo\<close> created from the template
  \<^verbatim>\<open>empty\<close>, and the file \<^verbatim>\<open>src/App.java\<close> created in it.
\<close>

definition fresh_world :: world where
  "fresh_world = \<lparr>nodes = [([''app''], Dir), ([''app'', ''projects''], Dir)], cwd = [''app'']\<rparr>"

definition demo_id :: string where
  "demo_id = ''1700000000000''"

definition demo_request :: request where
  "demo_request = Some (JObj [(''name'', JStr ''Demo''), (''template'', JStr ''empty'')])"

definition demo_project :: "json list \<Rightarrow> json" where
  "demo_project files =
     JObj [(''id'', JStr demo_id), (''name'', JStr ''Demo''), (''template'', JStr ''empty''),
           (''files'', JArr files), (''folders'', JArr [JStr ''src'']),
           (''createdAt'', JStr ''2023-11-14T22:13:20'')]"

definition demo_dir :: location where
  "demo_dir = [''app'', ''projects'', demo_id]"

definition demo_world :: world where
  "demo_world =
     \<lparr>nodes = [([''app''], Dir), ([''app'', ''projects''], Dir), (demo_dir, Dir),
               (demo_dir @ [''src''], Dir),
               (demo_dir @ [''project.json''], File (json_dumps (demo_project [])))],
      cwd = [''app'']\<rparr>"

definition app_request :: request where
  "app_request =
     Some (JObj [(''name'', JStr ''App.java''), (''path'', JStr ''src/App.java''),
                 (''content'', JStr ''class App{}'')])"

definition app_entry :: "string \<Rightarrow> json" where
  "app_entry content = file_entry ''App.java'' ''src/App.java'' content ''java''"

definition app_world :: "string \<Rightarrow> world" where
  "app_world content =
     \<lparr>nodes = [([''app''], Dir), ([''app'', ''projects''], Dir), (demo_dir, Dir),
               (demo_dir @ [''src''], Dir),
               (demo_dir @ [''project.json''], File (json_dumps (demo_project [app_entry content]))),
               (demo_dir @ [''src'', ''App.java''], File content)],
      cwd = [''app'']\<rparr>"

section \<open>Notions of the specification\<close>

text \<open>
  The extension of a file name in the words of the specification: what follows the last
  dot of the name, and \<^verbatim>\<open>txt\<close> for a name without a dot.
\<close>

definition extension_of_name :: "string \<Rightarrow> string" where
  "extension_of_name name =
     (if CHR ''.'' \<in> set name then rev (takeWhile (\<lambda>c. c \<noteq> CHR ''.'') (rev name)) else ''txt'')"

text \<open>
  The type of a file as a function of the name a request gives: the extension of a name
  that is a string, and \<^verbatim>\<open>txt\<close> for a name that is not a string.
\<close>

fun is_string :: "json \<Rightarrow> bool" where
  "is_string (JStr s) = True"
| "is_string _ = False"

definition type_of_name :: "json \<Rightarrow> string" where
  "type_of_name name = (case name of JStr s \<Rightarrow> extension_of_name s | _ \<Rightarrow> ''txt'')"

text \<open>
  Request bodies. A body is an object or it is not (no JSON body at all, or JSON text
  for a list, a string, a number, a truth value or \<^verbatim>\<open>null\<close>). In an object a field is
  missing or empty when it is not there or when its value is one that Python counts as
  false: the empty string, \<^verbatim>\<open>null\<close>, \<^verbatim>\<open>false\<close>, \<^verbatim>\<open>0\<close>, an empty list or an
  empty object. \<open>field_or\<close> is the value of a field, with a default for a missing one.
\<close>

fun is_object :: "request \<Rightarrow> bool" where
  "is_object (Some (JObj members)) = True"
| "is_object _ = False"

definition missing_or_empty :: "(string \<times> json) list \<Rightarrow> string \<Rightarrow> bool" where
  "missing_or_empty members k = (case map_of members k of None \<Rightarrow> True | Some v \<Rightarrow> \<not> truthy v)"

definition field_or :: "(string \<times> json) list \<Rightarrow> string \<Rightarrow> json \<Rightarrow> json" where
  "field_or members k d = (case map_of members k of None \<Rightarrow> d | Some v \<Rightarrow> v)"

definition content_request :: "json \<Rightarrow> request" where
  "content_request c = Some (JObj [(''content'', c)])"

definition docs_request :: request where
  "docs_request = Some (JObj [(''name'', JStr ''docs'')])"

text \<open>
  A state in which a project identifier is fresh: the working directory and the projects
  directory exist, and nothing exists at or below the directory of the project.
\<close>

definition fresh_project_dir :: "world \<Rightarrow> string \<Rightarrow> bool" where
  "fresh_project_dir w pid =
     (is_dir w (cwd w) \<and> is_dir w (cwd w @ [''projects'']) \<and>
      (\<forall>k. node_at w (cwd w @ ''projects'' # pid # k) = None))"

definition basic_request :: request where
  "basic_request = Some (JObj [(''name'', JStr ''Demo''), (''template'', JStr ''basic'')])"

definition basic_project :: json where
  "basic_project =
     JObj [(''id'', JStr demo_id), (''name'', JStr ''Demo''), (''template'', JStr ''basic''),
           (''files'', JArr [file_entry ''Main.java'' ''src/Main.java'' [] ''java'']),
           (''folders'', JArr [JStr ''src'']),
           (''createdAt'', JStr ''2023-11-14T22:13:20'')]"

definition basic_world :: world where
  "basic_world =
     \<lparr>nodes = [([''app''], Dir), ([''app'', ''projects''], Dir), (demo_dir, Dir),
               (demo_dir @ [''src''], Dir),
               (demo_dir @ [''src'', ''Main.java''], File []),
               (demo_dir @ [''project.json''], File (json_dumps basic_project))],
      cwd = [''app'']\<rparr>"

text \<open>
  A projects directory with a second project directory, \<^verbatim>\<open>broken\<close>, whose descriptor
  is not JSON text.
\<close>

definition corrupt_world :: world where
  "corrupt_world =
     \<lparr>nodes = [([''app''], Dir), ([''app'', ''projects''], Dir), (demo_dir, Dir),
               (demo_dir @ [''src''], Dir),
               (demo_dir @ [''project.json''], File (json_dumps (demo_project []))),
               ([''app'', ''projects'', ''broken''], Dir),
               ([''app'', ''projects'', ''broken'', ''project.json''], File ''{oops'')],
      cwd = [''app'']\<rparr>"

text \<open>The same directory when the second project has no descriptor at all.\<close>

definition partial_world :: world where
  "partial_world =
     \<lparr>nodes = [([''app''], Dir), ([''app'', ''projects''], Dir), (demo_dir, Dir),
               (demo_dir @ [''src''], Dir),
               (demo_dir @ [''project.json''], File (json_dumps (demo_project []))),
               ([''app'', ''projects'', ''broken''], Dir)],
      cwd = [''app'']\<rparr>"

text \<open>
  The update of the cached content in the words of the specification: the first entry of
  the file list whose path is the given one gets the new content, and every other entry
  stays as it is.
\<close>

definition with_content :: "json \<Rightarrow> string \<Rightarrow> json" where
  "with_content f content =
     (case f of JObj kvs \<Rightarrow> JObj (AList.update ''content'' (JStr content) kvs) | _ \<Rightarrow> f)"

fun first_match_updated :: "json list \<Rightarrow> string \<Rightarrow> string \<Rightarrow> json list" where
  "first_match_updated [] file_path content = []"
| "first_match_updated (f # rest) file_path content =
     (if getitem f ''path'' = Inr (JStr file_path) then with_content f content # rest
      else f # first_match_updated rest file_path content)"







definition other_project :: json where
  "other_project = JObj [(''name'', JStr ''Other''), (''files'', JArr [])]"

definition other_world :: world where
  "other_world =
     \<lparr>nodes = [([''app''], Dir), ([''app'', ''projects''], Dir), (demo_dir, Dir),
               (demo_dir @ [''src''], Dir),
               (demo_dir @ [''project.json''], File (json_dumps other_project))],
      cwd = [''app'']\<rparr>"

definition other_request :: request where
  "other_request = Some (JObj [(''content'', JStr ''{\"name\":\"Other\",\"files\":[]}'')])"

text \<open>The project \<^verbatim>\<open>Demo\<close> after its descriptor has been removed.\<close>

definition bare_world :: world where
  "bare_world =
     \<lparr>nodes = [([''app''], Dir), ([''app'', ''projects''], Dir), (demo_dir, Dir),
               (demo_dir @ [''src''], Dir)],
      cwd = [''app'']\<rparr>"

text \<open>The project \<^verbatim>\<open>Demo\<close> after the folder \<^verbatim>\<open>docs\<close> has been created in it.\<close>

definition docs_project :: json where
  "docs_project =
     JObj [(''id'', JStr demo_id), (''name'', JStr ''Demo''), (''template'', JStr ''empty''),
           (''files'', JArr []), (''folders'', JArr [JStr ''src'', JStr ''docs'']),
           (''createdAt'', JStr ''2023-11-14T22:13:20'')]"

definition docs_world :: world where
  "docs_world =
     \<lparr>nodes = [([''app''], Dir), ([''app'', ''projects''], Dir), (demo_dir, Dir),
               (demo_dir @ [''src''], Dir),
               (demo_dir @ [''project.json''], File (json_dumps docs_project)),
               (demo_dir @ [''docs''], Dir)],
      cwd = [''app'']\<rparr>"

section \<open>Properties of the file system\<close>

lemma node_at_put:
  "node_at (put_node w k n) k' = (if k' = [] then Some Dir else if k' = k then Some n else node_at w k')"
  by (simp add: node_at_def put_node_def update_conv')

lemma node_at_drop:
  "node_at (drop_node w k) k' = (if k' = [] then Some Dir else if k' = k then None else node_at w k')"
  by (simp add: node_at_def drop_node_def delete_conv')

lemma node_at_root [simp]: "node_at w [] = Some Dir"
  by (simp add: node_at_def)

lemma cwd_put [simp]: "cwd (put_node w k n) = cwd w"
  by (simp add: put_node_def)

lemma cwd_drop [simp]: "cwd (drop_node w k) = cwd w"
  by (simp add: drop_node_def)

lemma start_of_cong: "cwd w' = cwd w \<Longrightarrow> start_of w' p = start_of w p"
  by (simp add: start_of_def)

lemma walk_same_dirs:
  "(\<And>k. is_dir w' k = is_dir w k) \<Longrightarrow> walk w' cur cs = walk w cur cs"
  by (induction cs arbitrary: cur) simp_all

lemma resolve_same_dirs:
  "(\<And>k. is_dir w' k = is_dir w k) \<Longrightarrow> cwd w' = cwd w \<Longrightarrow> resolve w' p = resolve w p"
  using walk_same_dirs[of w' w] start_of_cong[of w' w] by (simp add: resolve_def)

lemma is_dir_put_file:
  "node_at w k \<noteq> Some Dir \<Longrightarrow> is_dir (put_node w k (File s)) k' = is_dir w k'"
  by (auto simp: is_dir_def node_at_put)

lemma is_dir_drop_file:
  "node_at w k = Some (File s) \<Longrightarrow> is_dir (drop_node w k) k' = is_dir w k'"
  by (auto simp: is_dir_def node_at_drop)

lemma write_file_Inr:
  assumes "write_file w p s = Inr w'"
  obtains k where "resolve w p = Some k" "node_at w k \<noteq> Some Dir" "w' = put_node w k (File s)" "k \<noteq> []"
  using assms by (auto simp: write_file_def node_at_def split: option.splits node.splits if_splits)

lemma resolve_after_write:
  assumes "write_file w p s = Inr w'"
  shows "resolve w' q = resolve w q"
proof -
  from assms obtain k where k: "node_at w k \<noteq> Some Dir" "w' = put_node w k (File s)"
    by (rule write_file_Inr)
  show ?thesis
    by (rule resolve_same_dirs) (simp_all add: k is_dir_put_file)
qed

lemma write_then_read:
  assumes "write_file w p s = Inr w'"
  shows "path_exists w' p" and "read_file w' p = Inr s"
proof -
  from assms obtain k where k: "resolve w p = Some k" "node_at w k \<noteq> Some Dir"
    "w' = put_node w k (File s)" "k \<noteq> []"
    by (rule write_file_Inr)
  have r: "resolve w' p = Some k" using resolve_after_write[OF assms] k by simp
  have n: "node_at w' k = Some (File s)" using k by (simp add: node_at_put)
  show "path_exists w' p" by (simp add: path_exists_def r n)
  show "read_file w' p = Inr s" by (simp add: read_file_def r n)
qed

section \<open>The example library round-trips\<close>

lemma below_ten: "d < 10 \<Longrightarrow> d \<in> {0, 1, 2, 3, 4, 5, 6, 7, 8, 9::nat}"
  by auto

lemma digit_char_is_digit: "d < 10 \<Longrightarrow> is_digit (digit_char d)"
  by (drule below_ten) (auto simp: is_digit_def digit_char_def)

lemma digit_val_char: "d < 10 \<Longrightarrow> digit_val (digit_char d) = d"
  by (drule below_ten) (auto simp: digit_val_def digit_char_def)

lemma str_nat_digits: "c \<in> set (str_nat n) \<Longrightarrow> is_digit c"
  by (induction n rule: str_nat.induct) (subst (asm) str_nat.simps, auto simp: digit_char_is_digit split: if_splits)

lemma str_nat_nonempty: "str_nat n \<noteq> []"
  by (subst str_nat.simps) simp

lemma nat_of_digits_append:
  "nat_of_digits acc (xs @ ys) = nat_of_digits (nat_of_digits acc xs) ys"
  by (induction xs arbitrary: acc) simp_all

lemma nat_of_digits_str_nat: "nat_of_digits 0 (str_nat n) = n"
proof (induction n rule: str_nat.induct)
  case (1 n)
  show ?case
  proof (cases "n < 10")
    case True
    then show ?thesis by (subst str_nat.simps) (simp add: digit_val_char)
  next
    case False
    with 1 have "nat_of_digits 0 (str_nat (n div 10)) = n div 10" by simp
    with False show ?thesis
      by (subst str_nat.simps) (simp add: nat_of_digits_append digit_val_char)
  qed
qed

lemma takeWhile_str_nat: "rest_ok r \<Longrightarrow> takeWhile is_digit (str_nat n @ r) = str_nat n"
  by (simp add: rest_ok_def takeWhile_append2 str_nat_digits)

lemma dropWhile_str_nat: "rest_ok r \<Longrightarrow> dropWhile is_digit (str_nat n @ r) = r"
proof -
  assume r: "rest_ok r"
  have "dropWhile is_digit r = r"
    using takeWhile_dropWhile_id[of is_digit r] r unfolding rest_ok_def by simp
  then show ?thesis by (simp add: dropWhile_append2 str_nat_digits)
qed

lemma unescape_escape: "unescape (escape s @ CHR ''\"'' # r) = Some (s, r)"
  by (induction s) simp_all

lemma commas_Cons: "xs \<noteq> [] \<Longrightarrow> commas (x # xs) = x @ CHR '','' # commas xs"
  by (cases xs) simp_all

lemma str_nat_hd: "\<exists>c cs. str_nat n = c # cs \<and> is_digit c"
proof (cases "str_nat n")
  case Nil
  then show ?thesis by (simp add: str_nat_nonempty)
next
  case (Cons c cs)
  then have "c \<in> set (str_nat n)" by simp
  then have "is_digit c" by (rule str_nat_digits)
  with Cons show ?thesis by simp
qed

lemma json_dumps_hd: "\<exists>c cs. json_dumps v = c # cs \<and> c \<noteq> CHR '']''"
proof (cases v)
  case (JInt i)
  obtain c cs where "str_nat (nat i) = c # cs" "is_digit c" using str_nat_hd by blast
  then show ?thesis using JInt by (auto simp: str_int_def is_digit_def)
qed (auto simp: quote_def)

lemma parse_int:
  assumes "rest_ok r" "n \<noteq> 0"
  shows "parse_value n (str_int i @ r) = Some (JInt i, r)"
proof -
  obtain m where n: "n = Suc m" using assms(2) by (cases n) auto
  show ?thesis
  proof (cases "i < 0")
    case True
    then show ?thesis using assms(1)
      by (simp add: n str_int_def takeWhile_str_nat dropWhile_str_nat nat_of_digits_str_nat
          str_nat_nonempty)
  next
    case False
    obtain c cs where c: "str_nat (nat i) = c # cs" "is_digit c" using str_nat_hd by blast
    have t: "takeWhile is_digit (c # cs @ r) = c # cs"
      using takeWhile_str_nat[OF assms(1), of "nat i"] c by simp
    have d: "dropWhile is_digit (cs @ r) = r"
      using dropWhile_str_nat[OF assms(1), of "nat i"] c by simp
    have v: "nat_of_digits 0 (c # cs) = nat i"
      using nat_of_digits_str_nat[of "nat i"] c by simp
    have nc: "c \<noteq> CHR ''n''" "c \<noteq> CHR ''t''" "c \<noteq> CHR ''f''" "c \<noteq> CHR ''\"''" "c \<noteq> CHR ''[''"
      "c \<noteq> CHR ''{''" "c \<noteq> CHR ''-''"
      using c(2) by (auto simp: is_digit_def)
    show ?thesis using False c(2) nc t d v
      by (simp add: n str_int_def c(1) del: nat_of_digits.simps takeWhile.simps)
  qed
qed

lemma parsesD:
  "parses v \<Longrightarrow> length (json_dumps v) \<le> n \<Longrightarrow> rest_ok r \<Longrightarrow>
   parse_value n (json_dumps v @ r) = Some (v, r)"
  by (simp add: parses_def)

lemma rest_ok_simps [simp]: "rest_ok []" "rest_ok (CHR '']'' # r)" "rest_ok (CHR '','' # r)"
  "rest_ok (CHR ''}'' # r)"
  by (simp_all add: rest_ok_def is_digit_def)

lemma parse_elems_ok:
  assumes "xs \<noteq> []" "\<And>x. x \<in> set xs \<Longrightarrow> parses x"
    "length (commas (map json_dumps xs)) < k"
  shows "parse_elems k (commas (map json_dumps xs) @ CHR '']'' # r) = Some (xs, r)"
  using assms
proof (induction xs arbitrary: k rule: list_nonempty_induct)
  case (single x)
  then obtain k' where k: "k = Suc k'" by (cases k) auto
  from single have "parse_value k' (json_dumps x @ CHR '']'' # r) = Some (x, CHR '']'' # r)"
    by (simp add: parses_def k)
  then show ?case by (simp add: k)
next
  case (cons x xs)
  then obtain k' where k: "k = Suc k'" by (cases k) auto
  have c: "commas (json_dumps x # map json_dumps xs) = json_dumps x @ CHR '','' # commas (map json_dumps xs)"
    using cons.hyps by (simp add: commas_Cons)
  have "parse_value k' (json_dumps x @ CHR '','' # commas (map json_dumps xs) @ CHR '']'' # r)
        = Some (x, CHR '','' # commas (map json_dumps xs) @ CHR '']'' # r)"
    using cons.prems c by (simp add: parses_def k)
  moreover have "parse_elems k' (commas (map json_dumps xs) @ CHR '']'' # r) = Some (xs, r)"
    using cons.prems c by (intro cons.IH) (auto simp: k)
  ultimately show ?case by (simp add: k c)
qed

lemma member_text_eq:
  "member_text kv = CHR ''\"'' # escape (fst kv) @ CHR ''\"'' # CHR '':'' # json_dumps (snd kv)"
  by (simp add: member_text_def quote_def)

lemma parse_members_ok:
  assumes "kvs \<noteq> []" "\<And>kv. kv \<in> set kvs \<Longrightarrow> parses (snd kv)"
    "length (commas (map member_text kvs)) < k"
  shows "parse_members k (commas (map member_text kvs) @ CHR ''}'' # r) = Some (kvs, r)"
  using assms
proof (induction kvs arbitrary: k rule: list_nonempty_induct)
  case (single kv)
  then obtain k' where k: "k = Suc k'" by (cases k) auto
  from single.prems(2) have "length (json_dumps (snd kv)) \<le> k'"
    by (simp add: k member_text_eq[of kv])
  moreover have "parses (snd kv)" using single.prems(1) by simp
  ultimately
  have "parse_value k' (json_dumps (snd kv) @ CHR ''}'' # r) = Some (snd kv, CHR ''}'' # r)"
    by (simp add: parses_def)
  then show ?case by (simp add: k member_text_eq[of kv] unescape_escape)
next
  case (cons kv kvs)
  then obtain k' where k: "k = Suc k'" by (cases k) auto
  have c: "commas (member_text kv # map member_text kvs)
           = member_text kv @ CHR '','' # commas (map member_text kvs)"
    using cons.hyps by (simp add: commas_Cons)
  have len: "length (member_text kv) + 1 + length (commas (map member_text kvs)) < k"
    using cons.prems(2) unfolding list.map c by simp
  have mlen: "length (json_dumps (snd kv)) < length (member_text kv)"
    by (simp add: member_text_eq)
  from len mlen have l1: "length (json_dumps (snd kv)) \<le> k'"
    and l2: "length (commas (map member_text kvs)) < k'"
    by (simp_all add: k)
  have "parses (snd kv)" using cons.prems(1) by simp
  with l1
  have p1: "parse_value k' (json_dumps (snd kv) @ CHR '','' # commas (map member_text kvs) @ CHR ''}'' # r)
        = Some (snd kv, CHR '','' # commas (map member_text kvs) @ CHR ''}'' # r)"
    by (simp add: parses_def)
  have p2: "parse_members k' (commas (map member_text kvs) @ CHR ''}'' # r) = Some (kvs, r)"
    using cons.prems(1) l2 by (intro cons.IH) auto
  have shape: "commas (map member_text (kv # kvs)) @ CHR ''}'' # r
      = CHR ''\"'' # escape (fst kv) @ CHR ''\"'' # CHR '':'' # json_dumps (snd kv)
        @ CHR '','' # commas (map member_text kvs) @ CHR ''}'' # r"
    unfolding list.map c by (simp add: member_text_eq[of kv])
  show ?case unfolding shape using p1 p2 by (simp add: k unescape_escape)
qed

lemma json_dumps_JObj:
  "json_dumps (JObj kvs) = CHR ''{'' # commas (map member_text kvs) @ ''}''"
proof -
  have "(\<lambda>(k, v). quote k @ CHR '':'' # json_dumps v) = member_text"
    by (auto simp: member_text_def fun_eq_iff)
  then show ?thesis by simp
qed

lemma parses_all: "parses v"
proof (induction v)
  case JNull
  show ?case unfolding parses_def
  proof (intro allI impI)
    fix n r assume "length (json_dumps JNull) \<le> n"
    then obtain m where "n = Suc m" by (cases n) auto
    then show "parse_value n (json_dumps JNull @ r) = Some (JNull, r)" by simp
  qed
next
  case (JBool b)
  show ?case unfolding parses_def
  proof (intro allI impI)
    fix n r assume "length (json_dumps (JBool b)) \<le> n"
    then obtain m where "n = Suc m" by (cases n) (auto split: if_splits)
    then show "parse_value n (json_dumps (JBool b) @ r) = Some (JBool b, r)" by simp
  qed
next
  case (JInt i)
  show ?case unfolding parses_def
  proof (intro allI impI)
    fix n r assume "length (json_dumps (JInt i)) \<le> n" "rest_ok r"
    moreover have "str_int i \<noteq> []" by (simp add: str_int_def str_nat_nonempty)
    ultimately show "parse_value n (json_dumps (JInt i) @ r) = Some (JInt i, r)"
      by (cases n) (auto simp: parse_int)
  qed
next
  case (JStr s)
  show ?case unfolding parses_def
  proof (intro allI impI)
    fix n r assume "length (json_dumps (JStr s)) \<le> n"
    then obtain m where "n = Suc m" by (cases n) (auto simp: quote_def)
    then show "parse_value n (json_dumps (JStr s) @ r) = Some (JStr s, r)"
      by (simp add: quote_def unescape_escape)
  qed
next
  case (JArr xs)
  show ?case unfolding parses_def
  proof (intro allI impI)
    fix n r assume len: "length (json_dumps (JArr xs)) \<le> n"
    then obtain m where n: "n = Suc m" by (cases n) auto
    show "parse_value n (json_dumps (JArr xs) @ r) = Some (JArr xs, r)"
    proof (cases xs)
      case Nil
      then show ?thesis by (simp add: n)
    next
      case (Cons y ys)
      obtain c cs where h: "json_dumps y = c # cs" "c \<noteq> CHR '']''"
        using json_dumps_hd by blast
      have "\<exists>ds. commas (map json_dumps xs) = c # ds"
        using Cons h by (cases ys) simp_all
      then obtain ds where ds: "commas (map json_dumps xs) = c # ds" by blast
      have "parse_elems m (commas (map json_dumps xs) @ CHR '']'' # r) = Some (xs, r)"
        using len Cons JArr by (intro parse_elems_ok) (auto simp: n)
      then show ?thesis using h(2) by (simp add: n ds)
    qed
  qed
next
  case (JObj kvs)
  show ?case unfolding parses_def
  proof (intro allI impI)
    fix n r assume len: "length (json_dumps (JObj kvs)) \<le> n"
    then obtain m where n: "n = Suc m" by (cases n) auto
    show "parse_value n (json_dumps (JObj kvs) @ r) = Some (JObj kvs, r)"
    proof (cases kvs)
      case Nil
      then show ?thesis by (simp add: n)
    next
      case (Cons y ys)
      have "\<exists>ds. commas (map member_text kvs) = CHR ''\"'' # ds"
        using Cons by (cases ys) (simp_all add: member_text_eq)
      then obtain ds where ds: "commas (map member_text kvs) = CHR ''\"'' # ds" by blast
      have p: "\<And>kv. kv \<in> set kvs \<Longrightarrow> parses (snd kv)"
        using JObj by (auto simp: snds.simps)
      have "parse_members m (commas (map member_text kvs) @ CHR ''}'' # r) = Some (kvs, r)"
        using len Cons p
        by (intro parse_members_ok) (auto simp: n json_dumps_JObj simp del: json_dumps.simps)
      then show ?thesis by (simp add: n ds json_dumps_JObj del: json_dumps.simps)
    qed
  qed
qed

lemma json_round_trip: "json_loads (json_dumps v) = Some v"
proof -
  have "parse_value (length (json_dumps v)) (json_dumps v @ []) = Some (v, [])"
    by (rule parsesD[OF parses_all]) simp_all
  then show ?thesis by (simp add: json_loads_def)
qed

lemma round_trips_json_codec: "round_trips json_codec"
  by (simp add: round_trips_def json_codec_def json_round_trip)

section \<open>The example scenario, evaluated\<close>

declare json_dumps.simps [simp del]

lemma loads_codec [simp]: "loads json_codec = json_loads"
  by (simp add: json_codec_def)

declare json_round_trip [simp]

lemma dumps_codec [simp]: "dumps json_codec = json_dumps"
  by (simp add: json_codec_def)

lemma str_int_demo: "str_int 1700000000000 = demo_id"
  by (simp add: str_int_def str_nat.simps digit_char_def demo_id_def)

lemmas fs_eval = resolve_def start_of_def path_exists_def path_isdir_def read_file_def
  write_file_def remove_file_def makedirs_def listdir_def node_at_def is_dir_def put_node_def
  drop_node_def join_def dirname_def PROJECTS_DIR_def get_project_path_def metadata_path_def
  save_project_metadata_def load_project_metadata_def request_json_def fspath_def
  write_value_def

lemma create_demo:
  "create_project json_codec 1700000000000 ''2023-11-14T22:13:20'' demo_request fresh_world
   = (demo_world, 201, Success [(''project'', demo_project [])])"
  by (simp add: create_project_def create_structure_def str_int_demo fs_eval demo_request_def
      fresh_world_def demo_world_def demo_project_def demo_dir_def demo_id_def Let_def)

lemma get_demo:
  "get_project json_codec demo_id demo_world = (demo_world, 200, Success [(''project'', demo_project [])])"
  by (simp add: get_project_def fs_eval demo_world_def demo_project_def demo_dir_def demo_id_def)

lemma create_app:
  "create_file json_codec demo_id app_request demo_world
   = (app_world ''class App{}'', 201, Success [(''file'', app_entry ''class App{}'')])"
  by (simp add: create_file_def fs_eval demo_world_def demo_project_def demo_dir_def demo_id_def
      app_request_def app_world_def app_entry_def file_entry_def file_type_def Let_def)

lemma create_basic:
  "create_project json_codec 1700000000000 ''2023-11-14T22:13:20'' basic_request fresh_world
   = (basic_world, 201, Success [(''project'', basic_project)])"
  by (simp add: create_project_def create_structure_def str_int_demo fs_eval basic_request_def
      fresh_world_def basic_world_def basic_project_def demo_dir_def demo_id_def Let_def)

lemma delete_app:
  "delete_file json_codec demo_id ''src/App.java'' (app_world ''class App{}'')
   = (demo_world, 200, Success [(''message'', JStr ''File deleted successfully'')])"
  by (simp add: delete_file_def fs_eval app_world_def demo_world_def demo_project_def
      demo_dir_def demo_id_def app_entry_def file_entry_def Let_def)

lemma loads_oops: "json_loads ''{oops'' = None"
  by (simp add: json_loads_def eval_nat_numeral)

lemma update_app:
  "update_file json_codec demo_id ''src/App.java'' (content_request (JStr ''class App{int x;}''))
     (app_world ''class App{}'')
   = (app_world ''class App{int x;}'', 200,
      Success [(''message'', JStr ''File updated successfully'')])"
  by (simp add: update_file_def update_entries_def fs_eval app_world_def demo_project_def
      demo_dir_def demo_id_def app_entry_def file_entry_def content_request_def Let_def)

lemma get_app:
  "get_project json_codec demo_id (app_world c)
   = (app_world c, 200, Success [(''project'', demo_project [app_entry c])])"
  by (simp add: get_project_def fs_eval app_world_def demo_project_def demo_dir_def demo_id_def)

lemma other_text: "''{\"name\":\"Other\",\"files\":[]}'' = json_dumps other_project"
  by (simp add: other_project_def json_dumps.simps quote_def)

lemma loads_other: "json_loads ''{\"name\":\"Other\",\"files\":[]}'' = Some other_project"
  unfolding other_text by (rule json_round_trip)


lemma update_descriptor_other:
  "update_file json_codec demo_id ''project.json'' other_request demo_world
   = (other_world, 200, Success [(''message'', JStr ''File updated successfully'')])"
  by (simp add: update_file_def update_entries_def fs_eval demo_world_def other_world_def
      demo_dir_def demo_id_def loads_other other_request_def other_project_def Let_def)

lemma get_other:
  "get_project json_codec demo_id other_world
   = (other_world, 200, Success [(''project'', other_project)])"
  by (simp add: get_project_def fs_eval other_world_def other_project_def demo_dir_def demo_id_def)

lemma create_docs:
  "create_folder json_codec demo_id docs_request demo_world
   = (docs_world, 201, Success [(''folder'', JStr ''docs'')])"
  by (simp add: create_folder_def fs_eval demo_world_def docs_world_def demo_project_def
      docs_project_def demo_dir_def demo_id_def docs_request_def Let_def)

lemma get_docs:
  "get_project json_codec demo_id docs_world
   = (docs_world, 200, Success [(''project'', docs_project)])"
  by (simp add: get_project_def fs_eval docs_world_def docs_project_def demo_dir_def demo_id_def)






lemma delete_descriptor:
  "delete_file json_codec demo_id ''project.json'' demo_world
   = (bare_world, 200, Success [(''message'', JStr ''File deleted successfully'')])"
  by (simp add: delete_file_def fs_eval demo_world_def bare_world_def demo_dir_def demo_id_def
      Let_def)

lemma get_bare:
  "get_project json_codec demo_id bare_world = (bare_world, 404, Failure ''Project not found'')"
  by (simp add: get_project_def fs_eval bare_world_def demo_dir_def demo_id_def)
section \<open>Properties of the string functions\<close>

lemma split_on_nonempty: "split_on c s \<noteq> []"
  by (induction s) (auto split: list.splits)

lemma split_on_no_sep: "c \<notin> set s \<Longrightarrow> split_on c s = [s]"
  by (induction s) auto

lemma split_on_sep: "c \<in> set s \<Longrightarrow> \<exists>y z zs. split_on c s = y # z # zs"
proof (induction s)
  case Nil
  then show ?case by simp
next
  case (Cons x xs)
  obtain y ys where y: "split_on c xs = y # ys"
    using split_on_nonempty[of c xs] by (cases "split_on c xs") auto
  show ?case
  proof (cases "x = c")
    case True
    then show ?thesis using y by simp
  next
    case False
    with Cons obtain y' z zs where "split_on c xs = y' # z # zs" by auto
    with False show ?thesis by simp
  qed
qed

lemma last_split_on: "last (split_on c s) = rev (takeWhile (\<lambda>x. x \<noteq> c) (rev s))"
proof (induction s)
  case Nil
  show ?case by simp
next
  case (Cons x xs)
  show ?case
  proof (cases "c \<in> set xs")
    case False
    then have "takeWhile (\<lambda>x. x \<noteq> c) (rev xs @ [x]) = rev xs @ takeWhile (\<lambda>x. x \<noteq> c) [x]"
      by (intro takeWhile_append2) auto
    then show ?thesis using False by (simp add: split_on_no_sep)
  next
    case True
    then have t: "takeWhile (\<lambda>x. x \<noteq> c) (rev xs @ [x]) = takeWhile (\<lambda>x. x \<noteq> c) (rev xs)"
      by (intro takeWhile_append1) auto
    from True obtain y z zs where "split_on c xs = y # z # zs"
      using split_on_sep by blast
    then show ?thesis using Cons t by auto
  qed
qed

lemma is_substring_single: "is_substring [c] s = (c \<in> set s)"
  by (induction s) auto

lemma file_type_extension: "file_type (JStr name) = Inr (extension_of_name name)"
  by (simp add: file_type_def extension_of_name_def last_split_on is_substring_single)

lemma file_type_of_name: "file_type name = Inr t \<Longrightarrow> t = type_of_name name"
proof (cases name)
  case (JStr s)
  assume "file_type name = Inr t"
  with JStr show ?thesis by (simp add: file_type_extension type_of_name_def)
qed (auto simp: file_type_def type_of_name_def split: if_splits bool.splits)

section \<open>Paths below a missing directory\<close>

lemma split_on_append: "split_on c (xs @ c # ys) = split_on c xs @ split_on c ys"
proof (induction xs)
  case Nil
  show ?case by simp
next
  case (Cons x xs)
  obtain y t where "split_on c xs = y # t"
    using split_on_nonempty[of c xs] by (cases "split_on c xs") auto
  with Cons show ?case by simp
qed

lemma walk_append:
  "walk w cur (xs @ ys) = (case walk w cur xs of None \<Rightarrow> None | Some k \<Rightarrow> walk w k ys)"
  by (induction xs arbitrary: cur) simp_all

lemma walk_not_dir: "\<not> is_dir w k \<Longrightarrow> cs \<noteq> [] \<Longrightarrow> walk w k cs = None"
  by (cases cs) simp_all

lemma get_project_path_nonempty: "get_project_path project_id \<noteq> []"
  by (simp add: get_project_path_def join_def PROJECTS_DIR_def)

lemma not_exists_under:
  assumes ne: "\<not> path_exists w a" and a: "a \<noteq> []" and b: "b \<noteq> []" "hd b \<noteq> CHR ''/''"
  shows "\<not> path_exists w (join a b)"
proof -
  have sb: "split_on CHR ''/'' b \<noteq> []" by (rule split_on_nonempty)
  show ?thesis
  proof (cases "last a = CHR ''/''")
    case True
    with a obtain a' where a': "a = a' @ ''/''"
      by (metis append_butlast_last_id)
    have st: "start_of w (a' @ CHR ''/'' # b) = start_of w a"
      by (cases a') (simp_all add: start_of_def a')
    have ra: "resolve w a = (case walk w (start_of w a) (split_on CHR ''/'' a') of
                 None \<Rightarrow> None | Some k \<Rightarrow> if is_dir w k then Some k else None)"
      using split_on_append[of "CHR ''/''" a' "[]"]
      by (simp add: resolve_def a' walk_append split: option.splits)
    have rj: "resolve w (join a b) = (case walk w (start_of w a) (split_on CHR ''/'' a') of
                 None \<Rightarrow> None | Some k \<Rightarrow> walk w k (split_on CHR ''/'' b))"
      using b True a st by (simp add: join_def resolve_def a' split_on_append walk_append)
    show ?thesis
    proof (cases "walk w (start_of w a) (split_on CHR ''/'' a')")
      case None
      then show ?thesis by (simp add: path_exists_def rj)
    next
      case (Some k)
      with ne ra have "\<not> is_dir w k"
        by (auto simp: path_exists_def is_dir_def)
      then show ?thesis using Some sb by (simp add: path_exists_def rj walk_not_dir)
    qed
  next
    case False
    have st: "start_of w (a @ CHR ''/'' # b) = start_of w a"
      using a by (cases a) (simp_all add: start_of_def)
    have rj: "resolve w (join a b) = (case walk w (start_of w a) (split_on CHR ''/'' a) of
                 None \<Rightarrow> None | Some k \<Rightarrow> walk w k (split_on CHR ''/'' b))"
      using b False a st by (simp add: join_def resolve_def split_on_append walk_append)
    show ?thesis
    proof (cases "walk w (start_of w a) (split_on CHR ''/'' a)")
      case None
      then show ?thesis by (simp add: path_exists_def rj)
    next
      case (Some k)
      with ne a have "\<not> is_dir w k"
        by (auto simp: path_exists_def resolve_def is_dir_def)
      then show ?thesis using Some sb by (simp add: path_exists_def rj walk_not_dir)
    qed
  qed
qed

lemma absent_project_paths:
  assumes "\<not> path_exists w (get_project_path project_id)"
  shows "\<not> path_exists w (metadata_path project_id)"
    and "file_path \<noteq> [] \<Longrightarrow> hd file_path \<noteq> CHR ''/'' \<Longrightarrow>
         \<not> path_exists w (join (get_project_path project_id) file_path)"
proof -
  show "\<not> path_exists w (metadata_path project_id)"
    unfolding metadata_path_def
    by (rule not_exists_under[OF assms get_project_path_nonempty]) simp_all
  show "file_path \<noteq> [] \<Longrightarrow> hd file_path \<noteq> CHR ''/'' \<Longrightarrow>
         \<not> path_exists w (join (get_project_path project_id) file_path)"
    by (rule not_exists_under[OF assms get_project_path_nonempty])
qed

lemma absent_project_load:
  "\<not> path_exists w (get_project_path project_id) \<Longrightarrow>
   load_project_metadata L project_id w = Inr JNull"
  by (simp add: load_project_metadata_def absent_project_paths)

section \<open>Reading and writing descriptors\<close>

lemma remove_file_Inr:
  assumes "remove_file w p = Inr w'"
  obtains k s where "resolve w p = Some k" "node_at w k = Some (File s)" "w' = drop_node w k"
    "k \<noteq> []"
  using assms by (auto simp: remove_file_def node_at_def split: option.splits node.splits if_splits)

lemma resolve_after_remove:
  assumes "remove_file w p = Inr w'"
  shows "resolve w' q = resolve w q"
proof -
  from assms obtain k s where k: "node_at w k = Some (File s)" "w' = drop_node w k"
    by (rule remove_file_Inr)
  show ?thesis
    by (rule resolve_same_dirs) (simp_all add: k is_dir_drop_file[OF k(1)])
qed

lemma keep_others_paths:
  "keep_others items file_path = Inr kept \<Longrightarrow> f \<in> set kept \<Longrightarrow>
   getitem f ''path'' \<noteq> Inr (JStr file_path)"
  by (induction items arbitrary: kept) (auto split: sum.splits if_splits)

lemma getitem_setitem:
  assumes "setitem m k v = Inr m'"
  shows "getitem m' k' = (if k' = k then Inr v else getitem m k')"
  using assms by (cases m) (auto simp: update_conv')

lemma load_after_save:
  assumes "round_trips L" and "save_project_metadata L project_id m w = Inr w'"
  shows "load_project_metadata L project_id w' = Inr m"
proof -
  from assms(2) have "path_exists w' (metadata_path project_id)"
    and "read_file w' (metadata_path project_id) = Inr (dumps L m)"
    by (auto simp: save_project_metadata_def dest: write_then_read)
  moreover from assms(1) have "loads L (dumps L m) = Some m" by (simp add: round_trips_def)
  ultimately show ?thesis by (simp add: load_project_metadata_def)
qed

lemma load_truthy_exists:
  "load_project_metadata L project_id w = Inr m \<Longrightarrow> truthy m \<Longrightarrow>
   path_exists w (metadata_path project_id)"
  by (auto simp: load_project_metadata_def split: if_splits)

text \<open>What a successful \<^verbatim>\<open>delete_file\<close> has done.\<close>

lemma delete_file_200:
  assumes "delete_file L project_id file_path w = (w', 200, b)"
  obtains w1 m where "remove_file w (join (get_project_path project_id) file_path) = Inr w1"
    "load_project_metadata L project_id w1 = Inr m"
    "(\<not> truthy m \<and> w' = w1) \<or>
     (\<exists>files items kept m'. truthy m \<and> getitem m ''files'' = Inr files \<and>
        iter_items files = Inr items \<and> keep_others items file_path = Inr kept \<and>
        setitem m ''files'' (JArr kept) = Inr m' \<and>
        save_project_metadata L project_id m' w1 = Inr w')"
  using assms
  by (auto simp: delete_file_def Let_def split: if_splits sum.splits)

section \<open>The listing loop\<close>

lemma collect_projects_eq:
  "collect_projects L w names acc =
     (let results = map (\<lambda>n. load_project_metadata L n w)
                      (filter (\<lambda>n. path_isdir w (get_project_path n)) names)
      in if list_all (\<lambda>r. \<not> isl r) results
         then Inr (acc @ filter truthy (map projr results))
         else Inl (projl (hd (filter isl results))))"
proof (induction names arbitrary: acc)
  case Nil
  show ?case by simp
next
  case (Cons n names)
  show ?case
  proof (cases "path_isdir w (get_project_path n)")
    case False
    then show ?thesis using Cons by simp
  next
    case True
    show ?thesis
    proof (cases "load_project_metadata L n w")
      case (Inl e)
      then show ?thesis using True by simp
    next
      case (Inr m)
      then show ?thesis using True Cons by (simp add: Let_def)
    qed
  qed
qed

lemma listdir_exists: "listdir w p = Inr names \<Longrightarrow> path_exists w p"
  by (auto simp: listdir_def path_exists_def is_dir_def split: option.splits if_splits)

section \<open>What the file operations leave alone\<close>

lemma write_file_other:
  assumes wr: "write_file w p s = Inr w'" and ne: "resolve w q \<noteq> resolve w p"
  shows "read_file w' q = read_file w q" and "path_exists w' q = path_exists w q"
proof -
  from wr obtain k where k: "resolve w p = Some k" "w' = put_node w k (File s)" "k \<noteq> []"
    by (rule write_file_Inr)
  have r: "resolve w' q = resolve w q" by (rule resolve_after_write[OF wr])
  have n: "\<And>k'. resolve w q = Some k' \<Longrightarrow> node_at w' k' = node_at w k'"
    using ne k by (auto simp: node_at_put)
  show "read_file w' q = read_file w q"
    by (cases "resolve w q") (simp_all add: read_file_def r n)
  show "path_exists w' q = path_exists w q"
    by (cases "resolve w q") (simp_all add: path_exists_def r n)
qed

lemma remove_file_other:
  assumes rm: "remove_file w p = Inr w'" and ne: "resolve w q \<noteq> resolve w p"
  shows "read_file w' q = read_file w q" and "path_exists w' q = path_exists w q"
proof -
  from rm obtain k s where k: "resolve w p = Some k" "w' = drop_node w k" "k \<noteq> []"
    by (rule remove_file_Inr)
  have r: "resolve w' q = resolve w q" by (rule resolve_after_remove[OF rm])
  have n: "\<And>k'. resolve w q = Some k' \<Longrightarrow> node_at w' k' = node_at w k'"
    using ne k by (auto simp: node_at_drop)
  show "read_file w' q = read_file w q"
    by (cases "resolve w q") (simp_all add: read_file_def r n)
  show "path_exists w' q = path_exists w q"
    by (cases "resolve w q") (simp_all add: path_exists_def r n)
qed

lemma load_cong:
  "read_file w' (metadata_path project_id) = read_file w (metadata_path project_id) \<Longrightarrow>
   path_exists w' (metadata_path project_id) = path_exists w (metadata_path project_id) \<Longrightarrow>
   load_project_metadata L project_id w' = load_project_metadata L project_id w"
  by (simp add: load_project_metadata_def)

lemma mkdirs_keeps:
  "mkdirs w cur cs = (w', r) \<Longrightarrow>
   cwd w' = cwd w \<and> (\<forall>k. node_at w k \<noteq> None \<longrightarrow> node_at w' k = node_at w k)"
proof (induction cs arbitrary: w cur)
  case Nil
  then show ?case by simp
next
  case (Cons c cs)
  show ?case
  proof (cases "\<not> is_dir w cur \<or> c = [] \<or> c = ''.'' \<or> c = ''..''")
    case True
    then show ?thesis using Cons by (auto split: if_splits)
  next
    case False
    show ?thesis
    proof (cases "node_at w (cur @ [c])")
      case None
      let ?w1 = "put_node w (cur @ [c]) Dir"
      from Cons.prems False None have "mkdirs ?w1 (cur @ [c]) cs = (w', r)" by simp
      from Cons.IH[OF this] have "cwd w' = cwd ?w1"
        and "\<forall>k. node_at ?w1 k \<noteq> None \<longrightarrow> node_at w' k = node_at ?w1 k" by auto
      moreover have "\<And>k. node_at w k \<noteq> None \<Longrightarrow> node_at ?w1 k = node_at w k"
        using None by (auto simp: node_at_put)
      ultimately show ?thesis by auto
    next
      case (Some n)
      then show ?thesis using Cons False by (cases n) (auto split: if_splits)
    qed
  qed
qed

lemma walk_mono:
  "(\<And>k. is_dir w k \<Longrightarrow> is_dir w' k) \<Longrightarrow> walk w cur cs = Some k \<Longrightarrow> walk w' cur cs = Some k"
  by (induction cs arbitrary: cur) (auto split: if_splits)

lemma makedirs_keeps:
  assumes mk: "makedirs w p = (w', r)" and ex: "path_exists w q"
  shows "read_file w' q = read_file w q" and "path_exists w' q"
proof -
  have keep: "cwd w' = cwd w" "\<And>k. node_at w k \<noteq> None \<Longrightarrow> node_at w' k = node_at w k"
    using mk mkdirs_keeps[of w _ _ w' r] by (auto simp: makedirs_def split: if_splits)
  from ex obtain k where k: "resolve w q = Some k" "node_at w k \<noteq> None"
    by (auto simp: path_exists_def split: option.splits)
  have "resolve w' q = Some k"
    using k(1) keep walk_mono[of w w' "start_of w q" "split_on CHR ''/'' q" k]
    by (auto simp: resolve_def is_dir_def start_of_def split: if_splits)
  moreover have "node_at w' k = node_at w k" using k keep by simp
  ultimately show "read_file w' q = read_file w q" and "path_exists w' q"
    using k by (simp_all add: read_file_def path_exists_def)
qed




section \<open>The update loop\<close>



lemma first_match_updated_none:
  "(\<And>f. f \<in> set files \<Longrightarrow> getitem f ''path'' \<noteq> Inr (JStr file_path)) \<Longrightarrow>
   first_match_updated files file_path content = files"
  by (induction files) simp_all




section \<open>What a successful request has done\<close>

lemma get_project_200:
  "get_project L project_id w = (w', 200, Success [(''project'', m)]) \<longleftrightarrow>
   w' = w \<and> load_project_metadata L project_id w = Inr m \<and> truthy m"
  by (auto simp: get_project_def split: sum.splits if_splits)

lemma setitem_truthy: "setitem m k v = Inr m' \<Longrightarrow> truthy m'"
  by (cases m) auto

lemma get_after_save:
  assumes rt: "round_trips L" and st: "setitem m k v = Inr m'"
    and sv: "save_project_metadata L project_id m' w1 = Inr w'"
  shows "\<exists>m'. get_project L project_id w' = (w', 200, Success [(''project'', m')]) \<and>
           (\<forall>key. key \<noteq> k \<longrightarrow> getitem m' key = getitem m key)"
proof -
  have "load_project_metadata L project_id w' = Inr m'" using rt sv by (rule load_after_save)
  moreover have "truthy m'" using st by (rule setitem_truthy)
  moreover have "\<forall>key. key \<noteq> k \<longrightarrow> getitem m' key = getitem m key"
    using getitem_setitem[OF st] by simp
  ultimately show ?thesis by (auto simp: get_project_200)
qed

lemma dict_get_object: "dict_get (JObj members) k d = Inr (field_or members k d)"
  by (simp add: field_or_def)

lemma write_value_Inr:
  "write_value w p v = (w1, Inr u) \<Longrightarrow> \<exists>s. v = JStr s \<and> write_file w p s = Inr w1"
  by (cases v) (auto simp: write_value_def split: sum.splits)

lemma create_file_201:
  assumes "create_file L project_id data w = (w', 201, b)"
  shows "\<exists>w2 metadata files' metadata'.
           load_project_metadata L project_id w = Inr metadata \<and>
           setitem metadata ''files'' files' = Inr metadata' \<and>
           save_project_metadata L project_id metadata' w2 = Inr w'"
  using assms unfolding create_file_def Let_def
  by (fastforce split: if_splits sum.splits prod.splits)

lemma update_file_200:
  assumes "update_file L project_id file_path data w = (w', 200, b)"
  shows "\<exists>members w1 content m1.
           data = Some (JObj members) \<and>
           field_or members ''content'' (JStr []) = JStr content \<and>
           write_file w (join (get_project_path project_id) file_path) content = Inr w1 \<and>
           load_project_metadata L project_id w1 = Inr m1 \<and>
           ((\<not> truthy m1 \<and> w' = w1) \<or>
            (\<exists>files' m'. truthy m1 \<and> setitem m1 ''files'' files' = Inr m' \<and>
               save_project_metadata L project_id m' w1 = Inr w'))"
proof -
  from assms obtain members where d: "data = Some (JObj members)"
    unfolding update_file_def request_json_def
    by (cases data; cases "the data") auto
  show ?thesis
    using assms unfolding update_file_def request_json_def Let_def d
    by (simp del: dict_get.simps add: dict_get_object
        split: if_splits sum.splits prod.splits)
      (fastforce dest: write_value_Inr)+
qed

text \<open>Writing or removing the file at the path of the descriptor itself.\<close>

lemma load_after_write_descriptor:
  assumes wr: "write_file w p s = Inr w1"
    and same: "resolve w (metadata_path project_id) = resolve w p"
  shows "load_project_metadata L project_id w1
         = (case loads L s of None \<Rightarrow> Inl JSONDecodeError | Some v \<Rightarrow> Inr v)"
proof -
  from wr obtain k where k: "resolve w p = Some k" "w1 = put_node w k (File s)" "k \<noteq> []"
    by (rule write_file_Inr)
  have "resolve w1 (metadata_path project_id) = Some k"
    using resolve_after_write[OF wr] same k by simp
  moreover have "node_at w1 k = Some (File s)" using k by (simp add: node_at_put)
  ultimately show ?thesis
    by (simp add: load_project_metadata_def path_exists_def read_file_def)
qed

lemma load_after_remove_descriptor:
  assumes rm: "remove_file w p = Inr w1"
    and same: "resolve w (metadata_path project_id) = resolve w p"
  shows "load_project_metadata L project_id w1 = Inr JNull"
proof -
  from rm obtain k s where k: "resolve w p = Some k" "w1 = drop_node w k" "k \<noteq> []"
    by (rule remove_file_Inr)
  have "resolve w1 (metadata_path project_id) = Some k"
    using resolve_after_remove[OF rm] same k by simp
  moreover have "node_at w1 k = None" using k by (simp add: node_at_drop)
  ultimately show ?thesis
    by (simp add: load_project_metadata_def path_exists_def)
qed

lemma delete_file_saved:
  assumes "delete_file L project_id file_path w = (w', 200, b)"
  shows "\<exists>w1 m1.
           remove_file w (join (get_project_path project_id) file_path) = Inr w1 \<and>
           load_project_metadata L project_id w1 = Inr m1 \<and>
           ((\<not> truthy m1 \<and> w' = w1) \<or>
            (\<exists>files' m'. truthy m1 \<and> setitem m1 ''files'' files' = Inr m' \<and>
               save_project_metadata L project_id m' w1 = Inr w'))"
  using assms unfolding delete_file_def Let_def
  by (fastforce split: if_splits sum.splits)

lemma create_folder_201:
  assumes "create_folder L project_id data w = (w', 201, b)"
  shows "\<exists>w1 r metadata folder_path.
           load_project_metadata L project_id w = Inr metadata \<and>
           makedirs w folder_path = (w1, r) \<and>
           (w' = w1 \<or>
            (\<exists>folders' m'. setitem metadata ''folders'' folders' = Inr m' \<and>
               save_project_metadata L project_id m' w1 = Inr w'))"
  using assms unfolding create_folder_def Let_def
  by (fastforce split: if_splits sum.splits prod.splits bool.splits)

section \<open>The paths of a project\<close>

lemma str_int_chars: "c \<in> set (str_int i) \<Longrightarrow> c = CHR ''-'' \<or> is_digit c"
  by (auto simp: str_int_def dest: str_nat_digits split: if_splits)

lemma str_int_nonempty: "str_int i \<noteq> []"
  by (simp add: str_int_def str_nat_nonempty)

lemma str_int_component:
  "str_int i \<noteq> []" "CHR ''/'' \<notin> set (str_int i)" "str_int i \<noteq> ''.''" "str_int i \<noteq> ''..''"
proof -
  show "str_int i \<noteq> []" by (rule str_int_nonempty)
  have d: "CHR ''.'' \<notin> set (str_int i)"
    using str_int_chars[of "CHR ''.''" i] by (auto simp: is_digit_def)
  show "CHR ''/'' \<notin> set (str_int i)"
    using str_int_chars[of "CHR ''/''" i] by (auto simp: is_digit_def)
  show "str_int i \<noteq> ''.''" using d by auto
  show "str_int i \<noteq> ''..''" using d by auto
qed

lemma project_path_text:
  assumes "pid \<noteq> []" "CHR ''/'' \<notin> set pid"
  shows "get_project_path pid = ''projects/'' @ pid"
  using assms by (cases pid) (auto simp: get_project_path_def join_def PROJECTS_DIR_def)

lemma project_file_text:
  assumes "pid \<noteq> []" "CHR ''/'' \<notin> set pid" "rel \<noteq> []" "hd rel \<noteq> CHR ''/''"
  shows "join (get_project_path pid) rel = ''projects/'' @ pid @ CHR ''/'' # rel"
proof -
  have "last (''projects/'' @ pid) \<noteq> CHR ''/''"
    using assms(1,2) by (metis last_appendR last_in_set)
  then show ?thesis using assms by (simp add: project_path_text join_def)
qed

lemma project_path_split:
  assumes "pid \<noteq> []" "CHR ''/'' \<notin> set pid"
  shows "split_on CHR ''/'' (get_project_path pid) = [''projects'', pid]"
proof -
  have "split_on CHR ''/'' (''projects'' @ CHR ''/'' # pid)
        = split_on CHR ''/'' ''projects'' @ split_on CHR ''/'' pid"
    by (rule split_on_append)
  then show ?thesis using assms by (simp add: project_path_text split_on_no_sep)
qed

lemma project_file_split:
  assumes "pid \<noteq> []" "CHR ''/'' \<notin> set pid" "rel \<noteq> []" "hd rel \<noteq> CHR ''/''"
  shows "split_on CHR ''/'' (join (get_project_path pid) rel)
         = ''projects'' # pid # split_on CHR ''/'' rel"
proof -
  have "split_on CHR ''/'' ((''projects/'' @ pid) @ CHR ''/'' # rel)
        = split_on CHR ''/'' (''projects/'' @ pid) @ split_on CHR ''/'' rel"
    by (rule split_on_append)
  moreover have "split_on CHR ''/'' (''projects/'' @ pid) = [''projects'', pid]"
    using project_path_split[OF assms(1,2)] assms by (simp add: project_path_text)
  ultimately show ?thesis using assms by (simp add: project_file_text)
qed

lemma project_start:
  assumes "pid \<noteq> []" "CHR ''/'' \<notin> set pid"
  shows "start_of w (get_project_path pid) = cwd w" and "get_project_path pid \<noteq> []"
  using assms by (simp_all add: project_path_text start_of_def)

lemma project_file_start:
  assumes "pid \<noteq> []" "CHR ''/'' \<notin> set pid" "rel \<noteq> []" "hd rel \<noteq> CHR ''/''"
  shows "start_of w (join (get_project_path pid) rel) = cwd w"
    and "join (get_project_path pid) rel \<noteq> []"
  unfolding project_file_text[OF assms] by (simp_all add: start_of_def)

section \<open>Creating a project\<close>

lemma created_project_fetched:
  assumes rt: "round_trips L"
    and cr: "create_project L now_ms created_at data w = (w', 201, Success [(''project'', p)])"
  shows "getitem p ''id'' = Inr (JStr (str_int now_ms)) \<and>
         get_project L (str_int now_ms) w' = (w', 200, Success [(''project'', p)])"
proof -
  from cr obtain w2 where sv: "save_project_metadata L (str_int now_ms) p w2 = Inr w'"
    and id: "getitem p ''id'' = Inr (JStr (str_int now_ms))" and tr: "truthy p"
    by (auto simp: create_project_def Let_def split: if_splits prod.splits sum.splits)
  have "load_project_metadata L (str_int now_ms) w' = Inr p"
    using rt sv by (rule load_after_save)
  with tr id show ?thesis by (simp add: get_project_def)
qed

lemma create_project_fresh:
  assumes body: "data = Some (JObj members)"
    and name: "map_of members ''name'' = Some project_name" "truthy project_name"
    and fresh: "fresh_project_dir w (str_int now_ms)"
  shows "\<exists>w' p. create_project L now_ms created_at data w = (w', 201, Success [(''project'', p)])"
proof -
  let ?pid = "str_int now_ms"
  let ?C = "cwd w"
  define template where "template = field_or members ''template'' (JStr ''empty'')"
  note comp = str_int_component[of now_ms]
  from fresh have d0: "node_at w ?C = Some Dir" and d1: "node_at w (?C @ [''projects'']) = Some Dir"
    and n: "\<And>k. node_at w (?C @ ''projects'' # ?pid # k) = None"
    by (simp_all add: fresh_project_dir_def is_dir_def)
  note sp = project_path_split[OF comp(1,2)] project_start[OF comp(1,2)]
  have rel: "\<And>rel. rel \<noteq> [] \<Longrightarrow> hd rel \<noteq> CHR ''/'' \<Longrightarrow>
      split_on CHR ''/'' (join (get_project_path ?pid) rel) = ''projects'' # ?pid # split_on CHR ''/'' rel \<and>
      start_of w' (join (get_project_path ?pid) rel) = cwd w' \<and>
      join (get_project_path ?pid) rel \<noteq> []" for w'
    using project_file_split[OF comp(1,2)] project_file_start[OF comp(1,2)] by simp
  have src: "join (join (get_project_path ?pid) ''src'') ''Main.java''
             = join (get_project_path ?pid) ''src/Main.java''"
    by (simp add: project_file_text[OF comp(1,2)] join_def)
  have mp: "metadata_path ?pid = join (get_project_path ?pid) ''project.json''"
    by (simp add: metadata_path_def)
  have put: "\<And>w' k n k'. k' \<noteq> [] \<Longrightarrow>
      node_at (put_node w' k n) k' = (if k' = k then Some n else node_at w' k')"
    by (simp add: node_at_put)
  have putC: "\<And>w' k n. node_at w' ?C = Some Dir \<Longrightarrow> k \<noteq> ?C \<Longrightarrow>
      node_at (put_node w' k n) ?C = Some Dir"
    by (simp add: node_at_put)
  consider "template = JStr ''basic''" | "template = JStr ''maven''"
    | "template \<noteq> JStr ''basic''" "template \<noteq> JStr ''maven''" by blast
  then show ?thesis
  proof cases
    case 1
    then show ?thesis
      using name d0 d1 n comp(1,3,4) unfolding template_def field_or_def body
      by (simp add: create_project_def create_structure_def Let_def makedirs_def sp src mp
          rel write_file_def resolve_def save_project_metadata_def is_dir_def put putC
          request_json_def)
  next
    case 2
    then show ?thesis
      using name d0 d1 n comp(1,3,4) unfolding template_def field_or_def body
      by (simp add: create_project_def create_structure_def Let_def makedirs_def sp src mp
          rel write_file_def resolve_def save_project_metadata_def is_dir_def put putC
          request_json_def)
  next
    case 3
    then show ?thesis
      using name d0 d1 n comp(1,3,4) unfolding template_def field_or_def body
      by (simp add: create_project_def create_structure_def Let_def makedirs_def sp src mp
          rel write_file_def resolve_def save_project_metadata_def is_dir_def put putC
          request_json_def)
  qed
qed

section \<open>Properties of the endpoints\<close>

text \<open>
  C1. With a JSON library that round-trips, for every request whose body is an object
  with a non-empty name (a non-empty string, or any other value that Python counts as
  true) and for every template: \<^verbatim>\<open>create_project\<close> either fails on the file system
  (answer 500) or answers 201 with a project that \<^verbatim>\<open>get_project\<close> then fetches,
  unchanged, under the identifier it was given; and in a state where that identifier is
  fresh the answer is 201.
\<close>

theorem create_then_get_project:
  assumes rt: "round_trips L"
    and body: "data = Some (JObj members)"
    and name: "map_of members ''name'' = Some project_name" "truthy project_name"
    and cr: "create_project L now_ms created_at data w = (w', st, b)"
  shows "((\<exists>e. st = 500 \<and> b = Fault e) \<or>
          (\<exists>p. st = 201 \<and> b = Success [(''project'', p)] \<and>
               getitem p ''id'' = Inr (JStr (str_int now_ms)) \<and>
               get_project L (str_int now_ms) w' = (w', 200, Success [(''project'', p)]))) \<and>
         (fresh_project_dir w (str_int now_ms) \<longrightarrow> st = 201)"
proof -
  from body name cr
  have "(\<exists>e. st = 500 \<and> b = Fault e) \<or> (\<exists>p. st = 201 \<and> b = Success [(''project'', p)])"
    by (auto simp: create_project_def request_json_def Let_def split: prod.splits sum.splits)
  moreover have "getitem p ''id'' = Inr (JStr (str_int now_ms)) \<and>
        get_project L (str_int now_ms) w' = (w', 200, Success [(''project'', p)])"
    if "st = 201" "b = Success [(''project'', p)]" for p
    using created_project_fetched[OF rt] cr that by simp
  moreover have "st = 201" if "fresh_project_dir w (str_int now_ms)"
    using create_project_fresh[OF body name that, of L created_at] cr by auto
  ultimately show ?thesis by blast
qed

theorem create_then_get_project_witness:
  "round_trips json_codec \<and>
   demo_request = Some (JObj [(''name'', JStr ''Demo''), (''template'', JStr ''empty'')]) \<and>
   map_of [(''name'', JStr ''Demo''), (''template'', JStr ''empty'')] ''name''
     = Some (JStr ''Demo'') \<and>
   truthy (JStr ''Demo'') \<and>
   fresh_project_dir fresh_world ''1700000000000'' \<and>
   create_project json_codec 1700000000000 ''2023-11-14T22:13:20'' demo_request fresh_world
     = (demo_world, 201, Success [(''project'', demo_project [])]) \<and>
   getitem (demo_project []) ''id'' = Inr (JStr ''1700000000000'') \<and>
   get_project json_codec ''1700000000000'' demo_world
     = (demo_world, 200, Success [(''project'', demo_project [])])"
proof -
  have d: "demo_request = Some (JObj [(''name'', JStr ''Demo''), (''template'', JStr ''empty'')])"
    by (simp add: demo_request_def)
  have n: "map_of [(''name'', JStr ''Demo''), (''template'', JStr ''empty'')] ''name''
           = Some (JStr ''Demo'')" by simp
  have t: "truthy (JStr ''Demo'')" by simp
  have f: "fresh_project_dir fresh_world ''1700000000000''"
    by (simp add: fresh_project_dir_def fresh_world_def is_dir_def node_at_def)
  show ?thesis
    using create_then_get_project [OF round_trips_json_codec d n t create_demo]
      round_trips_json_codec d f create_demo
    by (simp add: str_int_demo demo_id_def)
qed

text \<open>
  C2, as the code has it. For a project that does not exist (its directory is absent),
  \<^verbatim>\<open>get_file\<close> and \<^verbatim>\<open>delete_file\<close> answer 404 for every relative file path, as
  the router delivers it. The three handlers that take a body read it first: when the
  request has no JSON body, or a body that is not an object, they answer 500.
  Otherwise \<^verbatim>\<open>update_file\<close> answers 404, and \<^verbatim>\<open>create_file\<close> and
  \<^verbatim>\<open>create_folder\<close> validate the request before they look the project up, so they
  answer 400 when a required field is missing or empty and 404 otherwise. None of the
  five changes the file system.
\<close>

theorem absent_project_endpoints:
  assumes "\<not> path_exists w (get_project_path project_id)"
    and "file_path \<noteq> []" and "hd file_path \<noteq> CHR ''/''"
  shows "create_file L project_id data w =
           (w, case data of
                 None \<Rightarrow> (500, Fault HTTPException)
               | Some (JObj members) \<Rightarrow>
                   if missing_or_empty members ''name'' \<or> missing_or_empty members ''path''
                   then (400, Failure ''File name and path are required'')
                   else (404, Failure ''Project not found'')
               | Some _ \<Rightarrow> (500, Fault AttributeError)) \<and>
         get_file project_id file_path w = (w, 404, Failure ''File not found'') \<and>
         update_file L project_id file_path data w =
           (w, case data of
                 None \<Rightarrow> (500, Fault HTTPException)
               | Some (JObj members) \<Rightarrow> (404, Failure ''File not found'')
               | Some _ \<Rightarrow> (500, Fault AttributeError)) \<and>
         delete_file L project_id file_path w = (w, 404, Failure ''File not found'') \<and>
         create_folder L project_id data w =
           (w, case data of
                 None \<Rightarrow> (500, Fault HTTPException)
               | Some (JObj members) \<Rightarrow>
                   if missing_or_empty members ''name''
                   then (400, Failure ''Folder name is required'')
                   else (404, Failure ''Project not found'')
               | Some _ \<Rightarrow> (500, Fault AttributeError))"
proof -
  note ld = absent_project_load[OF assms(1), of L]
  note ne = absent_project_paths(2)[OF assms]
  have "create_file L project_id data w =
           (w, case data of
                 None \<Rightarrow> (500, Fault HTTPException)
               | Some (JObj members) \<Rightarrow>
                   if missing_or_empty members ''name'' \<or> missing_or_empty members ''path''
                   then (400, Failure ''File name and path are required'')
                   else (404, Failure ''Project not found'')
               | Some _ \<Rightarrow> (500, Fault AttributeError))"
    by (auto simp: create_file_def request_json_def missing_or_empty_def ld
        split: option.splits json.splits)
  moreover have "get_file project_id file_path w = (w, 404, Failure ''File not found'')"
    by (simp add: get_file_def ne)
  moreover have "update_file L project_id file_path data w =
           (w, case data of
                 None \<Rightarrow> (500, Fault HTTPException)
               | Some (JObj members) \<Rightarrow> (404, Failure ''File not found'')
               | Some _ \<Rightarrow> (500, Fault AttributeError))"
    by (auto simp: update_file_def request_json_def ne split: option.splits json.splits)
  moreover have "delete_file L project_id file_path w = (w, 404, Failure ''File not found'')"
    by (simp add: delete_file_def ne)
  moreover have "create_folder L project_id data w =
           (w, case data of
                 None \<Rightarrow> (500, Fault HTTPException)
               | Some (JObj members) \<Rightarrow>
                   if missing_or_empty members ''name''
                   then (400, Failure ''Folder name is required'')
                   else (404, Failure ''Project not found'')
               | Some _ \<Rightarrow> (500, Fault AttributeError))"
    by (auto simp: create_folder_def request_json_def missing_or_empty_def ld
        split: option.splits json.splits)
  ultimately show ?thesis by simp
qed

theorem absent_project_endpoints_witness:
  "\<not> path_exists fresh_world (get_project_path ''ghost'') \<and>
   ''src/A.java'' \<noteq> [] \<and> hd ''src/A.java'' \<noteq> CHR ''/'' \<and>
   create_file json_codec ''ghost'' app_request fresh_world
     = (fresh_world, 404, Failure ''Project not found'') \<and>
   get_file ''ghost'' ''src/A.java'' fresh_world = (fresh_world, 404, Failure ''File not found'') \<and>
   update_file json_codec ''ghost'' ''src/A.java'' app_request fresh_world
     = (fresh_world, 404, Failure ''File not found'') \<and>
   delete_file json_codec ''ghost'' ''src/A.java'' fresh_world
     = (fresh_world, 404, Failure ''File not found'') \<and>
   create_folder json_codec ''ghost'' app_request fresh_world
     = (fresh_world, 404, Failure ''Project not found'')"
proof -
  have a: "\<not> path_exists fresh_world (get_project_path ''ghost'')"
    by (simp add: fs_eval fresh_world_def)
  show ?thesis
    using absent_project_endpoints [OF a, of "''src/A.java''" json_codec app_request] a
    by (simp add: app_request_def missing_or_empty_def)
qed

text \<open>
  The claim C2 as stated fails in two ways. For a project that does not exist, a
  file-creation request without a name is answered 400, not 404; and a request whose
  body is missing, or is JSON text for something else than an object, is answered 500.
\<close>

theorem absent_project_create_file_counterexample:
  "\<not> path_exists fresh_world (get_project_path ''ghost'') \<and>
   create_file json_codec ''ghost'' (Some (JObj [(''path'', JStr ''src/A.java'')])) fresh_world
     = (fresh_world, 400, Failure ''File name and path are required'') \<and>
   update_file json_codec ''ghost'' ''src/A.java'' None fresh_world
     = (fresh_world, 500, Fault HTTPException) \<and>
   create_folder json_codec ''ghost'' (Some (JArr [JStr ''docs''])) fresh_world
     = (fresh_world, 500, Fault AttributeError)"
  by (simp add: create_file_def update_file_def create_folder_def fs_eval fresh_world_def)

text \<open>
  C3, as the code has it. \<^verbatim>\<open>get_projects\<close> visits the subdirectories of the projects
  directory in listing order and loads the descriptor of each. When every descriptor
  loads, the answer is 200 with the non-empty descriptors in that order: a missing
  descriptor loads as \<^verbatim>\<open>None\<close> and is skipped. When the descriptor of some
  subdirectory fails to load, the answer is 500; a descriptor whose text is not JSON
  fails to load with \<^verbatim>\<open>JSONDecodeError\<close>.
\<close>

theorem get_projects_listing:
  assumes ls: "listdir w PROJECTS_DIR = Inr names"
    and sd: "subdirs = filter (\<lambda>n. path_isdir w (get_project_path n)) names"
  shows "((\<forall>n\<in>set subdirs. \<exists>m. load_project_metadata L n w = Inr m) \<longrightarrow>
            get_projects L w =
              (w, 200, Success [(''projects'',
                 JArr (filter truthy (map (\<lambda>n. projr (load_project_metadata L n w)) subdirs)))])) \<and>
         ((\<exists>n\<in>set subdirs. \<exists>e. load_project_metadata L n w = Inl e) \<longrightarrow>
            (\<exists>e. get_projects L w = (w, 500, Fault e))) \<and>
         (\<forall>n. \<not> path_exists w (metadata_path n) \<longrightarrow> load_project_metadata L n w = Inr JNull) \<and>
         (\<forall>n text. read_file w (metadata_path n) = Inr text \<and> loads L text = None \<longrightarrow>
            load_project_metadata L n w = Inl JSONDecodeError)"
proof -
  let ?results = "map (\<lambda>n. load_project_metadata L n w) subdirs"
  have gp: "get_projects L w =
      (if list_all (\<lambda>r. \<not> isl r) ?results
       then (w, 200, Success [(''projects'', JArr (filter truthy (map projr ?results)))])
       else (w, 500, Fault (projl (hd (filter isl ?results)))))"
    using ls listdir_exists[OF ls]
    by (simp add: get_projects_def collect_projects_eq sd Let_def)
  have a: "(\<forall>n\<in>set subdirs. \<exists>m. load_project_metadata L n w = Inr m) \<Longrightarrow>
      list_all (\<lambda>r. \<not> isl r) ?results"
    by (auto simp: list_all_iff)
  have b: "(\<exists>n\<in>set subdirs. \<exists>e. load_project_metadata L n w = Inl e) \<Longrightarrow>
      \<not> list_all (\<lambda>r. \<not> isl r) ?results"
    by (force simp: list_all_iff)
  have c: "\<And>n. \<not> path_exists w (metadata_path n) \<Longrightarrow> load_project_metadata L n w = Inr JNull"
    by (simp add: load_project_metadata_def)
  have d: "\<And>n text. read_file w (metadata_path n) = Inr text \<Longrightarrow> loads L text = None \<Longrightarrow>
      load_project_metadata L n w = Inl JSONDecodeError"
    by (auto simp: load_project_metadata_def read_file_def path_exists_def
        split: option.splits node.splits)
  show ?thesis using a b c d by (auto simp: gp comp_def)
qed

theorem get_projects_listing_witness:
  "listdir partial_world PROJECTS_DIR = Inr [demo_id, ''broken''] \<and>
   \<not> path_exists partial_world (metadata_path ''broken'') \<and>
   get_projects json_codec partial_world
     = (partial_world, 200, Success [(''projects'', JArr [demo_project []])]) \<and>
   listdir corrupt_world PROJECTS_DIR = Inr [demo_id, ''broken''] \<and>
   read_file corrupt_world (metadata_path ''broken'') = Inr ''{oops'' \<and>
   (\<exists>e. get_projects json_codec corrupt_world = (corrupt_world, 500, Fault e))"
proof -
  have ls: "listdir partial_world PROJECTS_DIR = Inr [demo_id, ''broken'']"
    by (simp add: fs_eval partial_world_def demo_dir_def demo_id_def)
  have sd: "[demo_id, ''broken'']
            = filter (\<lambda>n. path_isdir partial_world (get_project_path n)) [demo_id, ''broken'']"
    by (simp add: fs_eval partial_world_def demo_dir_def demo_id_def)
  have l1: "load_project_metadata json_codec demo_id partial_world = Inr (demo_project [])"
    by (simp add: fs_eval partial_world_def demo_dir_def demo_id_def)
  have ne: "\<not> path_exists partial_world (metadata_path ''broken'')"
    by (simp add: fs_eval partial_world_def demo_dir_def demo_id_def)
  have l2: "load_project_metadata json_codec ''broken'' partial_world = Inr JNull"
    using ne by (simp add: load_project_metadata_def)
  have ok: "get_projects json_codec partial_world
     = (partial_world, 200, Success [(''projects'', JArr [demo_project []])])"
    using get_projects_listing [OF ls sd, of json_codec] l1 l2
    by (simp add: demo_project_def)
  have ls': "listdir corrupt_world PROJECTS_DIR = Inr [demo_id, ''broken'']"
    by (simp add: fs_eval corrupt_world_def demo_dir_def demo_id_def)
  have sd': "[demo_id, ''broken'']
            = filter (\<lambda>n. path_isdir corrupt_world (get_project_path n)) [demo_id, ''broken'']"
    by (simp add: fs_eval corrupt_world_def demo_dir_def demo_id_def)
  have rd: "read_file corrupt_world (metadata_path ''broken'') = Inr ''{oops''"
    by (simp add: fs_eval corrupt_world_def demo_dir_def demo_id_def)
  have l3: "load_project_metadata json_codec ''broken'' corrupt_world = Inl JSONDecodeError"
    using get_projects_listing [OF ls' sd', of json_codec] rd loads_oops by simp
  have bad: "\<exists>e. get_projects json_codec corrupt_world = (corrupt_world, 500, Fault e)"
    using get_projects_listing [OF ls' sd', of json_codec] l3 by simp
  show ?thesis using ls ne ok ls' rd bad by simp
qed

text \<open>
  The claim C3 as stated fails: a project directory whose descriptor is not JSON text is
  not skipped; the listing of the directory that holds it answers 500, although the
  directory also holds a valid project.
\<close>

theorem get_projects_corrupt_counterexample:
  "path_isdir corrupt_world (get_project_path ''broken'') \<and>
   read_file corrupt_world (metadata_path ''broken'') = Inr ''{oops'' \<and>
   loads json_codec ''{oops'' = None \<and>
   get_projects json_codec corrupt_world = (corrupt_world, 500, Fault JSONDecodeError)"
  by (simp add: get_projects_def fs_eval corrupt_world_def demo_project_def demo_dir_def
      demo_id_def loads_oops)

text \<open>
  C4. For a request whose body is an object with a non-empty name and the template
  \<^verbatim>\<open>basic\<close>, \<^verbatim>\<open>create_project\<close> either fails on the file system (answer 500) or
  answers 201 with a project whose file list is the single entry for
  \<^verbatim>\<open>src/Main.java\<close> with empty content and whose folder list is \<^verbatim>\<open>['src']\<close>; in a
  state where the identifier is fresh the answer is 201.
\<close>

theorem basic_template_project:
  assumes "data = Some (JObj members)"
    and "map_of members ''name'' = Some project_name" and "truthy project_name"
    and "map_of members ''template'' = Some (JStr ''basic'')"
    and "create_project L now_ms created_at data w = (w', st, b)"
  shows "((\<exists>e. st = 500 \<and> b = Fault e) \<or>
          (\<exists>p. st = 201 \<and> b = Success [(''project'', p)] \<and>
               getitem p ''files''
                 = Inr (JArr [JObj [(''name'', JStr ''Main.java''),
                                   (''path'', JStr ''src/Main.java''),
                                   (''content'', JStr []), (''type'', JStr ''java'')]]) \<and>
               getitem p ''folders'' = Inr (JArr [JStr ''src'']))) \<and>
         (fresh_project_dir w (str_int now_ms) \<longrightarrow> st = 201)"
proof -
  have "(\<exists>e. st = 500 \<and> b = Fault e) \<or>
          (\<exists>p. st = 201 \<and> b = Success [(''project'', p)] \<and>
               getitem p ''files''
                 = Inr (JArr [JObj [(''name'', JStr ''Main.java''),
                                   (''path'', JStr ''src/Main.java''),
                                   (''content'', JStr []), (''type'', JStr ''java'')]]) \<and>
               getitem p ''folders'' = Inr (JArr [JStr ''src'']))"
    using assms
    by (auto simp: create_project_def create_structure_def file_entry_def request_json_def Let_def
        split: prod.splits sum.splits)
  moreover have "st = 201" if "fresh_project_dir w (str_int now_ms)"
    using create_project_fresh[OF assms(1,2,3) that, of L created_at] assms(5)
    by auto
  ultimately show ?thesis by blast
qed

theorem basic_template_project_witness:
  "basic_request = Some (JObj [(''name'', JStr ''Demo''), (''template'', JStr ''basic'')]) \<and>
   map_of [(''name'', JStr ''Demo''), (''template'', JStr ''basic'')] ''name''
     = Some (JStr ''Demo'') \<and>
   truthy (JStr ''Demo'') \<and>
   map_of [(''name'', JStr ''Demo''), (''template'', JStr ''basic'')] ''template''
     = Some (JStr ''basic'') \<and>
   fresh_project_dir fresh_world ''1700000000000'' \<and>
   create_project json_codec 1700000000000 ''2023-11-14T22:13:20'' basic_request fresh_world
     = (basic_world, 201, Success [(''project'', basic_project)]) \<and>
   getitem basic_project ''files''
     = Inr (JArr [JObj [(''name'', JStr ''Main.java''), (''path'', JStr ''src/Main.java''),
                       (''content'', JStr []), (''type'', JStr ''java'')]]) \<and>
   getitem basic_project ''folders'' = Inr (JArr [JStr ''src''])"
proof -
  have d: "basic_request = Some (JObj [(''name'', JStr ''Demo''), (''template'', JStr ''basic'')])"
    by (simp add: basic_request_def)
  have n: "map_of [(''name'', JStr ''Demo''), (''template'', JStr ''basic'')] ''name''
           = Some (JStr ''Demo'')" by simp
  have t: "map_of [(''name'', JStr ''Demo''), (''template'', JStr ''basic'')] ''template''
           = Some (JStr ''basic'')" by simp
  have tr: "truthy (JStr ''Demo'')" by simp
  have f: "fresh_project_dir fresh_world ''1700000000000''"
    by (simp add: fresh_project_dir_def fresh_world_def is_dir_def node_at_def)
  show ?thesis
    using basic_template_project [OF d n tr t create_basic] d f create_basic
    by simp
qed

text \<open>
  C5, as the code has it. When the body of a file-creation request is an object in
  which the name or the path is missing or empty, \<^verbatim>\<open>create_file\<close> answers 400 with
  the validation message; when the request has no JSON body, or a body that is not an
  object, it answers 500, because the handler reads the fields before it validates
  them. In both cases the file system is the one it started from: nothing is written to
  disk and no descriptor changes.
\<close>

theorem create_file_validation:
  "(data = Some (JObj members) \<and>
    (missing_or_empty members ''name'' \<or> missing_or_empty members ''path'') \<longrightarrow>
      create_file L project_id data w = (w, 400, Failure ''File name and path are required'')) \<and>
   (\<not> is_object data \<longrightarrow>
      create_file L project_id data w
        = (w, 500, Fault (if data = None then HTTPException else AttributeError)))"
proof -
  have "create_file L project_id data w = (w, 400, Failure ''File name and path are required'')"
    if "data = Some (JObj members)"
      "missing_or_empty members ''name'' \<or> missing_or_empty members ''path''"
    using that
    by (auto simp: create_file_def request_json_def missing_or_empty_def split: option.splits)
  moreover have "create_file L project_id data w
        = (w, 500, Fault (if data = None then HTTPException else AttributeError))"
    if "\<not> is_object data"
  proof (cases data)
    case None
    then show ?thesis by (simp add: create_file_def request_json_def)
  next
    case (Some v)
    with that show ?thesis by (cases v) (simp_all add: create_file_def request_json_def)
  qed
  ultimately show ?thesis by blast
qed

theorem create_file_validation_witness:
  "missing_or_empty [(''name'', JStr ''App.java'')] ''path'' \<and>
   create_file json_codec demo_id (Some (JObj [(''name'', JStr ''App.java'')])) demo_world
     = (demo_world, 400, Failure ''File name and path are required'') \<and>
   missing_or_empty [(''name'', JStr []), (''path'', JStr ''src/App.java'')] ''name'' \<and>
   create_file json_codec demo_id
       (Some (JObj [(''name'', JStr []), (''path'', JStr ''src/App.java'')])) demo_world
     = (demo_world, 400, Failure ''File name and path are required'') \<and>
   \<not> is_object (Some (JStr ''App.java'')) \<and>
   create_file json_codec demo_id (Some (JStr ''App.java'')) demo_world
     = (demo_world, 500, Fault AttributeError)"
proof -
  have a: "missing_or_empty [(''name'', JStr ''App.java'')] ''path''"
    and b: "missing_or_empty [(''name'', JStr []), (''path'', JStr ''src/App.java'')] ''name''"
    by (simp_all add: missing_or_empty_def)
  show ?thesis
    using create_file_validation
        [of "Some (JObj [(''name'', JStr ''App.java'')])" "[(''name'', JStr ''App.java'')]"
            json_codec demo_id demo_world]
      create_file_validation
        [of "Some (JObj [(''name'', JStr []), (''path'', JStr ''src/App.java'')])"
            "[(''name'', JStr []), (''path'', JStr ''src/App.java'')]"
            json_codec demo_id demo_world]
      create_file_validation [of "Some (JStr ''App.java'')" "[]" json_codec demo_id demo_world]
      a b
    by simp
qed

text \<open>
  The claim C5 as stated fails for a request in which name and path are absent because
  there is no object to hold them: without a JSON body, and with the body \<^verbatim>\<open>null\<close>,
  \<^verbatim>\<open>create_file\<close> answers 500, not 400.
\<close>

theorem create_file_body_counterexample:
  "create_file json_codec demo_id None demo_world = (demo_world, 500, Fault HTTPException) \<and>
   create_file json_codec demo_id (Some JNull) demo_world
     = (demo_world, 500, Fault AttributeError)"
  by (simp add: create_file_def request_json_def)




text \<open>
  C7. With a JSON library that round-trips: after \<^verbatim>\<open>delete_file\<close> has answered 200
  for a file, \<^verbatim>\<open>get_file\<close> answers 404 for it, and whenever \<^verbatim>\<open>get_project\<close> then
  returns the project, its file list has no entry whose path is the deleted one (the
  comprehension drops every matching entry, duplicates included).
\<close>

theorem delete_file_then_absent:
  assumes rt: "round_trips L"
    and del: "delete_file L project_id file_path w = (w', 200, b)"
  shows "get_file project_id file_path w' = (w', 404, Failure ''File not found'') \<and>
         (\<forall>p. get_project L project_id w' = (w', 200, Success [(''project'', p)]) \<longrightarrow>
            (\<exists>files. getitem p ''files'' = Inr (JArr files) \<and>
               (\<forall>f\<in>set files. getitem f ''path'' \<noteq> Inr (JStr file_path))))"
proof -
  let ?full = "join (get_project_path project_id) file_path"
  from del obtain w1 m where rm: "remove_file w ?full = Inr w1"
    and ld: "load_project_metadata L project_id w1 = Inr m"
    and alt: "(\<not> truthy m \<and> w' = w1) \<or>
     (\<exists>files items kept m'. truthy m \<and> getitem m ''files'' = Inr files \<and>
        iter_items files = Inr items \<and> keep_others items file_path = Inr kept \<and>
        setitem m ''files'' (JArr kept) = Inr m' \<and>
        save_project_metadata L project_id m' w1 = Inr w')"
    by (rule delete_file_200)
  from rm obtain k s where k: "resolve w ?full = Some k" "node_at w k = Some (File s)"
    "w1 = drop_node w k" "k \<noteq> []"
    by (rule remove_file_Inr)
  have r1: "resolve w1 ?full = Some k" using resolve_after_remove[OF rm] k by simp
  have n1: "node_at w1 k = None" using k by (simp add: node_at_drop)
  from alt show ?thesis
  proof
    assume a: "\<not> truthy m \<and> w' = w1"
    then have "\<not> path_exists w' ?full" using r1 n1 by (simp add: path_exists_def)
    moreover have "\<And>p. get_project L project_id w' \<noteq> (w', 200, Success [(''project'', p)])"
      using a ld by (simp add: get_project_def)
    ultimately show ?thesis by (simp add: get_file_def)
  next
    assume "\<exists>files items kept m'. truthy m \<and> getitem m ''files'' = Inr files \<and>
        iter_items files = Inr items \<and> keep_others items file_path = Inr kept \<and>
        setitem m ''files'' (JArr kept) = Inr m' \<and>
        save_project_metadata L project_id m' w1 = Inr w'"
    then obtain files items kept m' where tr: "truthy m"
      and ko: "keep_others items file_path = Inr kept"
      and st: "setitem m ''files'' (JArr kept) = Inr m'"
      and sv: "save_project_metadata L project_id m' w1 = Inr w'"
      by blast
    from sv obtain dk where dk: "resolve w1 (metadata_path project_id) = Some dk"
      "w' = put_node w1 dk (File (dumps L m'))"
      by (auto simp: save_project_metadata_def elim: write_file_Inr)
    have "path_exists w1 (metadata_path project_id)"
      using ld tr by (rule load_truthy_exists)
    with dk have "node_at w1 dk \<noteq> None" by (simp add: path_exists_def)
    with n1 have "dk \<noteq> k" by auto
    have "resolve w' ?full = Some k"
      using resolve_after_write[of w1 "metadata_path project_id" "dumps L m'" w' ?full] sv r1
      by (simp add: save_project_metadata_def)
    moreover have "node_at w' k = None"
      using dk \<open>dk \<noteq> k\<close> n1 k(4) by (simp add: node_at_put)
    ultimately have gone: "\<not> path_exists w' ?full" by (simp add: path_exists_def)
    have ld': "load_project_metadata L project_id w' = Inr m'"
      using rt sv by (rule load_after_save)
    have files': "getitem m' ''files'' = Inr (JArr kept)"
      using getitem_setitem[OF st, of "''files''"] by simp
    have "\<forall>f\<in>set kept. getitem f ''path'' \<noteq> Inr (JStr file_path)"
      using keep_others_paths[OF ko] by blast
    with files' ld' gone show ?thesis
      by (auto simp: get_file_def get_project_def split: if_splits)
  qed
qed

theorem delete_file_then_absent_witness:
  "round_trips json_codec \<and>
   delete_file json_codec demo_id ''src/App.java'' (app_world ''class App{}'')
     = (demo_world, 200, Success [(''message'', JStr ''File deleted successfully'')]) \<and>
   get_file demo_id ''src/App.java'' demo_world = (demo_world, 404, Failure ''File not found'') \<and>
   get_project json_codec demo_id demo_world
     = (demo_world, 200, Success [(''project'', demo_project [])]) \<and>
   getitem (demo_project []) ''files'' = Inr (JArr [])"
  using delete_file_then_absent [OF round_trips_json_codec delete_app]
    round_trips_json_codec delete_app get_demo
  by (simp add: demo_project_def)

text \<open>
  C8. The \<^verbatim>\<open>type\<close> field of the file that \<^verbatim>\<open>create_file\<close> returns is a function of
  the file name alone: for a name that is a string, what follows the last dot of the
  name, and \<^verbatim>\<open>txt\<close> when the name has no dot; a name that ends in a dot gets the
  empty type. (A name that is not a string is not refused; when such a file is created
  its type is \<^verbatim>\<open>txt\<close>.)
\<close>

theorem created_file_type:
  assumes "create_file L project_id data w = (w', 201, Success [(''file'', info)])"
  shows "(\<exists>members name. data = Some (JObj members) \<and> map_of members ''name'' = Some name \<and>
            getitem info ''name'' = Inr name \<and>
            getitem info ''type'' = Inr (JStr (type_of_name name)) \<and>
            (\<forall>s. name = JStr s \<longrightarrow>
               type_of_name name = extension_of_name s \<and>
               (CHR ''.'' \<in> set s \<or> extension_of_name s = ''txt'')) \<and>
            (is_string name \<or> type_of_name name = ''txt'')) \<and>
         extension_of_name (stem @ ''.'') = []"
proof -
  from assms obtain members name path content t where d: "data = Some (JObj members)"
    and n: "dict_get (JObj members) ''name'' JNull = Inr name" "truthy name"
    and t: "file_type name = Inr t"
    and i: "info = JObj [(''name'', name), (''path'', path), (''content'', content),
                         (''type'', JStr t)]"
    unfolding create_file_def request_json_def Let_def
    by (cases data; cases "the data")
      (auto split: if_splits sum.splits prod.splits)
  from n have m: "map_of members ''name'' = Some name"
    by (cases "map_of members ''name''") auto
  have "t = type_of_name name" using t by (rule file_type_of_name)
  moreover have "type_of_name (JStr s) = extension_of_name s \<and>
      (CHR ''.'' \<in> set s \<or> extension_of_name s = ''txt'')" for s
    by (simp add: type_of_name_def extension_of_name_def)
  moreover have "is_string name \<or> type_of_name name = ''txt''"
    by (cases name) (simp_all add: type_of_name_def)
  moreover have "extension_of_name (stem @ ''.'') = []"
    by (simp add: extension_of_name_def)
  ultimately show ?thesis using d m i by auto
qed

theorem created_file_type_witness:
  "create_file json_codec demo_id app_request demo_world
     = (app_world ''class App{}'', 201, Success [(''file'', app_entry ''class App{}'')]) \<and>
   getitem (app_entry ''class App{}'') ''name'' = Inr (JStr ''App.java'') \<and>
   getitem (app_entry ''class App{}'') ''type'' = Inr (JStr ''java'') \<and>
   type_of_name (JStr ''App.java'') = ''java'' \<and>
   extension_of_name ''App.java'' = ''java'' \<and>
   extension_of_name ''Makefile'' = ''txt'' \<and>
   extension_of_name (''archive'' @ ''.'') = []"
  using created_file_type [OF create_app, of "''archive''"] create_app
  by (simp add: app_request_def extension_of_name_def type_of_name_def app_entry_def
      file_entry_def)

text \<open>
  C9. \<^verbatim>\<open>run_project\<close> answers 404 whenever the descriptor of the project is absent, and
  it answers 200 only for a project whose descriptor exists and loads to a non-empty
  value; the body is then the canned text with the name of the project.
\<close>

theorem run_project_requires_descriptor:
  "(\<not> path_exists w (metadata_path project_id) \<longrightarrow>
      run_project L project_id w = (w, 404, Failure ''Project not found'')) \<and>
   (run_project L project_id w = (w', 200, b) \<longrightarrow>
      path_exists w (metadata_path project_id) \<and>
      (\<exists>m name. load_project_metadata L project_id w = Inr m \<and> truthy m \<and>
         getitem m ''name'' = Inr name \<and>
         b = Success [(''output'',
                       JStr (''Running project: '' @ py_str L name @ ''...'' @ [CHR 0x0A]
                             @ ''Compilation started...'' @ [CHR 0x0A]))]))"
  by (auto simp: run_project_def load_project_metadata_def split: sum.splits if_splits option.splits)

theorem run_project_requires_descriptor_witness:
  "\<not> path_exists fresh_world (metadata_path ''ghost'') \<and>
   run_project json_codec ''ghost'' fresh_world
     = (fresh_world, 404, Failure ''Project not found'') \<and>
   run_project json_codec demo_id demo_world
     = (demo_world, 200,
        Success [(''output'', JStr (''Running project: Demo...'' @ [CHR 0x0A]
                                    @ ''Compilation started...'' @ [CHR 0x0A]))]) \<and>
   path_exists demo_world (metadata_path demo_id)"
proof -
  have a: "\<not> path_exists fresh_world (metadata_path ''ghost'')"
    by (simp add: fs_eval fresh_world_def)
  have r: "run_project json_codec demo_id demo_world
     = (demo_world, 200,
        Success [(''output'', JStr (''Running project: Demo...'' @ [CHR 0x0A]
                                    @ ''Compilation started...'' @ [CHR 0x0A]))])"
    by (simp add: run_project_def fs_eval demo_world_def demo_project_def demo_dir_def
        demo_id_def py_str_def)
  show ?thesis
    using run_project_requires_descriptor [of fresh_world "''ghost''" json_codec fresh_world b]
      run_project_requires_descriptor [of demo_world demo_id json_codec demo_world
        "Success [(''output'', JStr (''Running project: Demo...'' @ [CHR 0x0A]
                                    @ ''Compilation started...'' @ [CHR 0x0A]))]"] a r
    by simp
qed

text \<open>
  C10, as the code has it. With a JSON library that round-trips, for a project that
  \<^verbatim>\<open>get_project\<close> returns: after a successful \<^verbatim>\<open>create_file\<close>, and after a
  successful \<^verbatim>\<open>update_file\<close> or \<^verbatim>\<open>delete_file\<close> of a file that is not the
  descriptor itself, \<^verbatim>\<open>get_project\<close> returns a project that agrees with the earlier
  one on every field but \<^verbatim>\<open>files\<close>; after a successful \<^verbatim>\<open>create_folder\<close> it agrees
  on every field but \<^verbatim>\<open>folders\<close>. So \<^verbatim>\<open>id\<close>, \<^verbatim>\<open>name\<close>, \<^verbatim>\<open>template\<close> and
  \<^verbatim>\<open>createdAt\<close> are unchanged.

  When the file is the descriptor itself, a successful \<^verbatim>\<open>update_file\<close> has written
  the content of the request over it before loading it: the project that
  \<^verbatim>\<open>get_project\<close> returns then agrees on every field but \<^verbatim>\<open>files\<close> with the value
  that the content parses to, not with the earlier project, and no project is found
  when that value is empty. A successful \<^verbatim>\<open>delete_file\<close> has removed the descriptor,
  and the project is no longer found.
\<close>

theorem descriptor_fields_kept:
  assumes rt: "round_trips L"
    and before: "get_project L project_id w = (w, 200, Success [(''project'', m)])"
  shows "(create_file L project_id data w = (w_created, 201, b_created) \<longrightarrow>
            (\<exists>m'. get_project L project_id w_created = (w_created, 200, Success [(''project'', m')]) \<and>
                  (\<forall>key. key \<noteq> ''files'' \<longrightarrow> getitem m' key = getitem m key))) \<and>
         (update_file L project_id file_path data w = (w_updated, 200, b_updated) \<longrightarrow>
            (if resolve w (metadata_path project_id)
                  \<noteq> resolve w (join (get_project_path project_id) file_path)
             then \<exists>m'. get_project L project_id w_updated
                         = (w_updated, 200, Success [(''project'', m')]) \<and>
                       (\<forall>key. key \<noteq> ''files'' \<longrightarrow> getitem m' key = getitem m key)
             else \<exists>members content m1.
                    data = Some (JObj members) \<and>
                    field_or members ''content'' (JStr []) = JStr content \<and>
                    loads L content = Some m1 \<and>
                    (if truthy m1
                     then \<exists>m'. get_project L project_id w_updated
                                 = (w_updated, 200, Success [(''project'', m')]) \<and>
                               (\<forall>key. key \<noteq> ''files'' \<longrightarrow> getitem m' key = getitem m1 key)
                     else get_project L project_id w_updated
                          = (w_updated, 404, Failure ''Project not found'')))) \<and>
         (delete_file L project_id file_path w = (w_deleted, 200, b_deleted) \<longrightarrow>
            (if resolve w (metadata_path project_id)
                  \<noteq> resolve w (join (get_project_path project_id) file_path)
             then \<exists>m'. get_project L project_id w_deleted
                         = (w_deleted, 200, Success [(''project'', m')]) \<and>
                       (\<forall>key. key \<noteq> ''files'' \<longrightarrow> getitem m' key = getitem m key)
             else get_project L project_id w_deleted
                  = (w_deleted, 404, Failure ''Project not found''))) \<and>
         (create_folder L project_id data w = (w_folder, 201, b_folder) \<longrightarrow>
            (\<exists>m'. get_project L project_id w_folder = (w_folder, 200, Success [(''project'', m')]) \<and>
                  (\<forall>key. key \<noteq> ''folders'' \<longrightarrow> getitem m' key = getitem m key)))"
proof -
  let ?mp = "metadata_path project_id"
  let ?full = "join (get_project_path project_id) file_path"
  from before have ld: "load_project_metadata L project_id w = Inr m" and tr: "truthy m"
    by (simp_all add: get_project_200)
  have c1: "\<exists>m'. get_project L project_id w_created = (w_created, 200, Success [(''project'', m')]) \<and>
                  (\<forall>key. key \<noteq> ''files'' \<longrightarrow> getitem m' key = getitem m key)"
    if "create_file L project_id data w = (w_created, 201, b_created)"
  proof -
    from that obtain wa metadata files' metadata' where
      "load_project_metadata L project_id w = Inr metadata"
      "setitem metadata ''files'' files' = Inr metadata'"
      "save_project_metadata L project_id metadata' wa = Inr w_created"
      using create_file_201 by blast
    with ld show ?thesis using get_after_save[OF rt, of m "''files''" files' metadata'] by auto
  qed
  have c2: "\<exists>m'. get_project L project_id w_updated = (w_updated, 200, Success [(''project'', m')]) \<and>
                  (\<forall>key. key \<noteq> ''files'' \<longrightarrow> getitem m' key = getitem m key)"
    if u: "update_file L project_id file_path data w = (w_updated, 200, b_updated)"
      and ne: "resolve w ?mp \<noteq> resolve w ?full"
  proof -
    from update_file_200[OF u] obtain wa content m1
      where wr: "write_file w ?full content = Inr wa"
      and l1: "load_project_metadata L project_id wa = Inr m1"
      and alt: "(\<not> truthy m1 \<and> w_updated = wa) \<or>
        (\<exists>files' m'. truthy m1 \<and> setitem m1 ''files'' files' = Inr m' \<and>
           save_project_metadata L project_id m' wa = Inr w_updated)"
      by blast
    have "load_project_metadata L project_id wa = load_project_metadata L project_id w"
      by (rule load_cong[OF write_file_other[OF wr ne]])
    with l1 ld have "m1 = m" by simp
    with alt tr obtain files' m' where "setitem m ''files'' files' = Inr m'"
      "save_project_metadata L project_id m' wa = Inr w_updated" by auto
    then show ?thesis using get_after_save[OF rt] by blast
  qed
  have c2': "\<exists>members content m1.
              data = Some (JObj members) \<and>
              field_or members ''content'' (JStr []) = JStr content \<and>
              loads L content = Some m1 \<and>
              (if truthy m1
               then \<exists>m'. get_project L project_id w_updated
                           = (w_updated, 200, Success [(''project'', m')]) \<and>
                         (\<forall>key. key \<noteq> ''files'' \<longrightarrow> getitem m' key = getitem m1 key)
               else get_project L project_id w_updated
                    = (w_updated, 404, Failure ''Project not found''))"
    if u: "update_file L project_id file_path data w = (w_updated, 200, b_updated)"
      and eq: "resolve w ?mp = resolve w ?full"
  proof -
    from update_file_200[OF u] obtain members wa content m1
      where d: "data = Some (JObj members)"
        "field_or members ''content'' (JStr []) = JStr content"
      and wr: "write_file w ?full content = Inr wa"
      and l1: "load_project_metadata L project_id wa = Inr m1"
      and alt: "(\<not> truthy m1 \<and> w_updated = wa) \<or>
        (\<exists>files' m'. truthy m1 \<and> setitem m1 ''files'' files' = Inr m' \<and>
           save_project_metadata L project_id m' wa = Inr w_updated)"
      by blast
    from load_after_write_descriptor[OF wr eq, of L] l1
    have ps: "loads L content = Some m1" by (cases "loads L content") simp_all
    have "get_project L project_id w_updated = (w_updated, 404, Failure ''Project not found'')"
      if "\<not> truthy m1"
      using that alt l1 by (auto simp: get_project_def)
    moreover have "\<exists>m'. get_project L project_id w_updated
                           = (w_updated, 200, Success [(''project'', m')]) \<and>
                         (\<forall>key. key \<noteq> ''files'' \<longrightarrow> getitem m' key = getitem m1 key)"
      if "truthy m1"
    proof -
      from alt that obtain files' m' where "setitem m1 ''files'' files' = Inr m'"
        "save_project_metadata L project_id m' wa = Inr w_updated" by auto
      then show ?thesis using get_after_save[OF rt] by blast
    qed
    ultimately show ?thesis using d ps by auto
  qed
  have c3: "\<exists>m'. get_project L project_id w_deleted = (w_deleted, 200, Success [(''project'', m')]) \<and>
                  (\<forall>key. key \<noteq> ''files'' \<longrightarrow> getitem m' key = getitem m key)"
    if d: "delete_file L project_id file_path w = (w_deleted, 200, b_deleted)"
      and ne: "resolve w ?mp \<noteq> resolve w ?full"
  proof -
    from d obtain wa m1 where rm: "remove_file w ?full = Inr wa"
      and l1: "load_project_metadata L project_id wa = Inr m1"
      and alt: "(\<not> truthy m1 \<and> w_deleted = wa) \<or>
        (\<exists>files' m'. truthy m1 \<and> setitem m1 ''files'' files' = Inr m' \<and>
           save_project_metadata L project_id m' wa = Inr w_deleted)"
      using delete_file_saved by blast
    have "load_project_metadata L project_id wa = load_project_metadata L project_id w"
      by (rule load_cong[OF remove_file_other[OF rm ne]])
    with l1 ld have "m1 = m" by simp
    with alt tr obtain files' m' where "setitem m ''files'' files' = Inr m'"
      "save_project_metadata L project_id m' wa = Inr w_deleted" by auto
    then show ?thesis using get_after_save[OF rt] by blast
  qed
  have c3': "get_project L project_id w_deleted = (w_deleted, 404, Failure ''Project not found'')"
    if d: "delete_file L project_id file_path w = (w_deleted, 200, b_deleted)"
      and eq: "resolve w ?mp = resolve w ?full"
  proof -
    from d obtain wa m1 where rm: "remove_file w ?full = Inr wa"
      and l1: "load_project_metadata L project_id wa = Inr m1"
      and alt: "(\<not> truthy m1 \<and> w_deleted = wa) \<or>
        (\<exists>files' m'. truthy m1 \<and> setitem m1 ''files'' files' = Inr m' \<and>
           save_project_metadata L project_id m' wa = Inr w_deleted)"
      using delete_file_saved by blast
    from load_after_remove_descriptor[OF rm eq, of L] l1 have "m1 = JNull" by simp
    with alt l1 show ?thesis by (auto simp: get_project_def)
  qed
  have c4: "\<exists>m'. get_project L project_id w_folder = (w_folder, 200, Success [(''project'', m')]) \<and>
                  (\<forall>key. key \<noteq> ''folders'' \<longrightarrow> getitem m' key = getitem m key)"
    if "create_folder L project_id data w = (w_folder, 201, b_folder)"
  proof -
    from that obtain wa r metadata folder_path where
      l: "load_project_metadata L project_id w = Inr metadata"
      and mk: "makedirs w folder_path = (wa, r)"
      and alt: "w_folder = wa \<or>
        (\<exists>folders' m'. setitem metadata ''folders'' folders' = Inr m' \<and>
           save_project_metadata L project_id m' wa = Inr w_folder)"
      using create_folder_201 by blast
    from l ld have mm: "metadata = m" by simp
    from alt show ?thesis
    proof
      assume "w_folder = wa"
      have ex: "path_exists w ?mp" using ld tr by (rule load_truthy_exists)
      have "load_project_metadata L project_id wa = load_project_metadata L project_id w"
        using makedirs_keeps[OF mk ex] ex by (intro load_cong) simp_all
      with ld tr \<open>w_folder = wa\<close> show ?thesis by (auto simp: get_project_200)
    next
      assume "\<exists>folders' m'. setitem metadata ''folders'' folders' = Inr m' \<and>
           save_project_metadata L project_id m' wa = Inr w_folder"
      then show ?thesis using get_after_save[OF rt] mm by blast
    qed
  qed
  have p2: "if resolve w ?mp \<noteq> resolve w ?full
             then \<exists>m'. get_project L project_id w_updated
                         = (w_updated, 200, Success [(''project'', m')]) \<and>
                       (\<forall>key. key \<noteq> ''files'' \<longrightarrow> getitem m' key = getitem m key)
             else \<exists>members content m1.
                    data = Some (JObj members) \<and>
                    field_or members ''content'' (JStr []) = JStr content \<and>
                    loads L content = Some m1 \<and>
                    (if truthy m1
                     then \<exists>m'. get_project L project_id w_updated
                                 = (w_updated, 200, Success [(''project'', m')]) \<and>
                               (\<forall>key. key \<noteq> ''files'' \<longrightarrow> getitem m' key = getitem m1 key)
                     else get_project L project_id w_updated
                          = (w_updated, 404, Failure ''Project not found''))"
    if u: "update_file L project_id file_path data w = (w_updated, 200, b_updated)"
  proof (cases "resolve w ?mp \<noteq> resolve w ?full")
    case True
    from c2[OF u True] show ?thesis unfolding if_P[OF True] .
  next
    case False
    then have eq: "resolve w ?mp = resolve w ?full" by simp
    from c2'[OF u eq] show ?thesis unfolding if_not_P[OF False] .
  qed
  have p3: "if resolve w ?mp \<noteq> resolve w ?full
             then \<exists>m'. get_project L project_id w_deleted
                         = (w_deleted, 200, Success [(''project'', m')]) \<and>
                       (\<forall>key. key \<noteq> ''files'' \<longrightarrow> getitem m' key = getitem m key)
             else get_project L project_id w_deleted
                  = (w_deleted, 404, Failure ''Project not found'')"
    if d: "delete_file L project_id file_path w = (w_deleted, 200, b_deleted)"
  proof (cases "resolve w ?mp \<noteq> resolve w ?full")
    case True
    from c3[OF d True] show ?thesis unfolding if_P[OF True] .
  next
    case False
    then have eq: "resolve w ?mp = resolve w ?full" by simp
    from c3'[OF d eq] show ?thesis unfolding if_not_P[OF False] .
  qed
  show ?thesis
    by (rule conjI[OF impI[OF c1] conjI[OF impI[OF p2] conjI[OF impI[OF p3] impI[OF c4]]]])
qed

theorem descriptor_fields_kept_witness:
  "round_trips json_codec \<and>
   get_project json_codec demo_id (app_world ''class App{}'')
     = (app_world ''class App{}'', 200,
        Success [(''project'', demo_project [app_entry ''class App{}''])]) \<and>
   resolve (app_world ''class App{}'') (metadata_path demo_id)
     \<noteq> resolve (app_world ''class App{}'') (join (get_project_path demo_id) ''src/App.java'') \<and>
   update_file json_codec demo_id ''src/App.java'' (content_request (JStr ''class App{int x;}''))
     (app_world ''class App{}'')
     = (app_world ''class App{int x;}'', 200,
        Success [(''message'', JStr ''File updated successfully'')]) \<and>
   (\<exists>m'. get_project json_codec demo_id (app_world ''class App{int x;}'')
            = (app_world ''class App{int x;}'', 200, Success [(''project'', m')]) \<and>
         map (getitem m') [''id'', ''name'', ''template'', ''createdAt'']
           = map (getitem (demo_project [app_entry ''class App{}'']))
               [''id'', ''name'', ''template'', ''createdAt'']) \<and>
   delete_file json_codec demo_id ''src/App.java'' (app_world ''class App{}'')
     = (demo_world, 200, Success [(''message'', JStr ''File deleted successfully'')]) \<and>
   (\<exists>m'. get_project json_codec demo_id demo_world
            = (demo_world, 200, Success [(''project'', m')]) \<and>
         map (getitem m') [''id'', ''name'', ''template'', ''createdAt'']
           = map (getitem (demo_project [app_entry ''class App{}'']))
               [''id'', ''name'', ''template'', ''createdAt'']) \<and>
   get_project json_codec demo_id demo_world
     = (demo_world, 200, Success [(''project'', demo_project [])]) \<and>
   create_file json_codec demo_id app_request demo_world
     = (app_world ''class App{}'', 201, Success [(''file'', app_entry ''class App{}'')]) \<and>
   create_folder json_codec demo_id docs_request demo_world
     = (docs_world, 201, Success [(''folder'', JStr ''docs'')]) \<and>
   (\<exists>m'. get_project json_codec demo_id docs_world
            = (docs_world, 200, Success [(''project'', m')]) \<and>
         map (getitem m') [''id'', ''name'', ''template'', ''createdAt'', ''files'']
           = map (getitem (demo_project []))
               [''id'', ''name'', ''template'', ''createdAt'', ''files'']) \<and>
   resolve demo_world (metadata_path demo_id)
     = resolve demo_world (join (get_project_path demo_id) ''project.json'') \<and>
   delete_file json_codec demo_id ''project.json'' demo_world
     = (bare_world, 200, Success [(''message'', JStr ''File deleted successfully'')]) \<and>
   get_project json_codec demo_id bare_world = (bare_world, 404, Failure ''Project not found'') \<and>
   update_file json_codec demo_id ''project.json'' other_request demo_world
     = (other_world, 200, Success [(''message'', JStr ''File updated successfully'')]) \<and>
   loads json_codec ''{\"name\":\"Other\",\"files\":[]}'' = Some other_project \<and>
   (\<exists>m'. get_project json_codec demo_id other_world
            = (other_world, 200, Success [(''project'', m')]) \<and>
         map (getitem m') [''id'', ''name'', ''template'', ''createdAt'']
           = map (getitem other_project) [''id'', ''name'', ''template'', ''createdAt''])"
proof -
  let ?w = "app_world ''class App{}''"
  have ne: "resolve ?w (metadata_path demo_id)
            \<noteq> resolve ?w (join (get_project_path demo_id) ''src/App.java'')"
    by (simp add: fs_eval app_world_def demo_dir_def demo_id_def)
  have eq: "resolve demo_world (metadata_path demo_id)
            = resolve demo_world (join (get_project_path demo_id) ''project.json'')"
    by (simp add: fs_eval demo_world_def demo_dir_def demo_id_def)
  then have same: "\<not> resolve demo_world (metadata_path demo_id)
            \<noteq> resolve demo_world (join (get_project_path demo_id) ''project.json'')"
    by simp
  note k = descriptor_fields_kept [where file_path = "''src/App.java''",
      OF round_trips_json_codec get_app [of "''class App{}''"]]
  note k' = descriptor_fields_kept [where file_path = "''project.json''",
      OF round_trips_json_codec get_demo]
  have u: "\<exists>m'. get_project json_codec demo_id (app_world ''class App{int x;}'')
            = (app_world ''class App{int x;}'', 200, Success [(''project'', m')]) \<and>
         map (getitem m') [''id'', ''name'', ''template'', ''createdAt'']
           = map (getitem (demo_project [app_entry ''class App{}'']))
               [''id'', ''name'', ''template'', ''createdAt'']"
  proof -
    from mp [OF conjunct1 [OF conjunct2 [OF k
        [where data = "content_request (JStr ''class App{int x;}'')"
          and w_updated = "app_world ''class App{int x;}''"
          and b_updated = "Success [(''message'', JStr ''File updated successfully'')]"]]]
        update_app, unfolded if_P [OF ne]]
    obtain m' where "get_project json_codec demo_id (app_world ''class App{int x;}'')
            = (app_world ''class App{int x;}'', 200, Success [(''project'', m')])"
      and "\<forall>key. key \<noteq> ''files'' \<longrightarrow>
             getitem m' key = getitem (demo_project [app_entry ''class App{}'']) key"
      by blast
    then show ?thesis by simp
  qed
  have d: "\<exists>m'. get_project json_codec demo_id demo_world
            = (demo_world, 200, Success [(''project'', m')]) \<and>
         map (getitem m') [''id'', ''name'', ''template'', ''createdAt'']
           = map (getitem (demo_project [app_entry ''class App{}'']))
               [''id'', ''name'', ''template'', ''createdAt'']"
  proof -
    from mp [OF conjunct1 [OF conjunct2 [OF conjunct2 [OF k [where w_deleted = demo_world
        and b_deleted = "Success [(''message'', JStr ''File deleted successfully'')]"]]]]
        delete_app, unfolded if_P [OF ne]]
    obtain m' where "get_project json_codec demo_id demo_world
            = (demo_world, 200, Success [(''project'', m')])"
      and "\<forall>key. key \<noteq> ''files'' \<longrightarrow>
             getitem m' key = getitem (demo_project [app_entry ''class App{}'']) key"
      by blast
    then show ?thesis by simp
  qed
  have f: "\<exists>m'. get_project json_codec demo_id docs_world
            = (docs_world, 200, Success [(''project'', m')]) \<and>
         map (getitem m') [''id'', ''name'', ''template'', ''createdAt'', ''files'']
           = map (getitem (demo_project []))
               [''id'', ''name'', ''template'', ''createdAt'', ''files'']"
  proof -
    from mp [OF conjunct2 [OF conjunct2 [OF conjunct2 [OF k'
        [where data = docs_request and w_folder = docs_world
          and b_folder = "Success [(''folder'', JStr ''docs'')]"]]]] create_docs]
    obtain m' where "get_project json_codec demo_id docs_world
            = (docs_world, 200, Success [(''project'', m')])"
      and "\<forall>key. key \<noteq> ''folders'' \<longrightarrow> getitem m' key = getitem (demo_project []) key"
      by blast
    then show ?thesis by simp
  qed
  have g: "get_project json_codec demo_id bare_world
           = (bare_world, 404, Failure ''Project not found'')"
    using mp [OF conjunct1 [OF conjunct2 [OF conjunct2 [OF k' [where w_deleted = bare_world
        and b_deleted = "Success [(''message'', JStr ''File deleted successfully'')]"]]]]
        delete_descriptor, unfolded if_not_P [OF same]] .
  have lo: "loads json_codec ''{\"name\":\"Other\",\"files\":[]}'' = Some other_project"
    by (simp add: loads_other)
  have o: "\<exists>m'. get_project json_codec demo_id other_world
            = (other_world, 200, Success [(''project'', m')]) \<and>
         map (getitem m') [''id'', ''name'', ''template'', ''createdAt'']
           = map (getitem other_project) [''id'', ''name'', ''template'', ''createdAt'']"
  proof -
    from mp [OF conjunct1 [OF conjunct2 [OF k'
        [where data = other_request and w_updated = other_world
          and b_updated = "Success [(''message'', JStr ''File updated successfully'')]"]]]
        update_descriptor_other, unfolded if_not_P [OF same]]
    obtain members content m1 where a: "other_request = Some (JObj members)"
      "field_or members ''content'' (JStr []) = JStr content"
      "loads json_codec content = Some m1"
      and b: "if truthy m1
         then \<exists>m'. get_project json_codec demo_id other_world
                     = (other_world, 200, Success [(''project'', m')]) \<and>
                   (\<forall>key. key \<noteq> ''files'' \<longrightarrow> getitem m' key = getitem m1 key)
         else get_project json_codec demo_id other_world
              = (other_world, 404, Failure ''Project not found'')"
      by blast
    from a(1,2) have "content = ''{\"name\":\"Other\",\"files\":[]}''"
      by (auto simp: other_request_def field_or_def)
    with a(3) lo have "m1 = other_project" by simp
    moreover have "truthy other_project" by (simp add: other_project_def)
    ultimately obtain m' where "get_project json_codec demo_id other_world
            = (other_world, 200, Success [(''project'', m')])"
      and "\<forall>key. key \<noteq> ''files'' \<longrightarrow> getitem m' key = getitem other_project key"
      using b by auto
    then show ?thesis by simp
  qed
  show ?thesis
    using round_trips_json_codec get_app ne update_app u delete_app d get_demo create_app
      create_docs f eq delete_descriptor g update_descriptor_other lo o
    by simp
qed

text \<open>
  The claim C10 as stated fails for \<^verbatim>\<open>update_file\<close> when the file is the descriptor
  itself: the handler writes the request's text over \<^verbatim>\<open>project.json\<close> before it loads
  the descriptor, so the project fetched afterwards has the name of the request's text
  and no identifier.
\<close>

theorem descriptor_fields_counterexample:
  "get_project json_codec demo_id demo_world
     = (demo_world, 200, Success [(''project'', demo_project [])]) \<and>
   other_request = content_request (JStr ''{\"name\":\"Other\",\"files\":[]}'') \<and>
   update_file json_codec demo_id ''project.json'' other_request demo_world
     = (other_world, 200, Success [(''message'', JStr ''File updated successfully'')]) \<and>
   get_project json_codec demo_id other_world
     = (other_world, 200, Success [(''project'', other_project)]) \<and>
   getitem (demo_project []) ''name'' = Inr (JStr ''Demo'') \<and>
   getitem other_project ''name'' = Inr (JStr ''Other'') \<and>
   getitem (demo_project []) ''id'' = Inr (JStr demo_id) \<and>
   getitem other_project ''id'' = Inl KeyError"
  by (simp add: get_demo update_descriptor_other get_other)
    (simp add: demo_project_def other_project_def other_request_def content_request_def)

end
